theory Spec2Isabelle
  imports Main "HOL-Library.Word" "HOL-Library.Sublist"
begin

section \<open>PKCE utility (pkce.ts)\<close>

text \<open>
  A \<open>Uint8Array\<close> is a list of 8-bit words. A JavaScript "binary string" (every code
  unit below 256) is an Isabelle \<open>string\<close>, whose characters are bytes.
\<close>

type_synonym byte = "8 word"

text \<open>
  The loop of \<open>base64URLEncode\<close>:
  \<^verbatim>\<open>for (let i = 0; i < bytes.length; i++) { binary += String.fromCharCode(bytes[i]) }\<close>
\<close>

primrec binary_string :: "byte list \<Rightarrow> string" where
  "binary_string [] = []"
| "binary_string (b # bs) = char_of (unat b) # binary_string bs"

definition b64_alphabet :: string where
  "b64_alphabet = ''ABCDEFGHIJKLMNOPQRSTUVWXYZabcdefghijklmnopqrstuvwxyz0123456789+/''"

definition b64_char :: "nat \<Rightarrow> char" where
  "b64_char n = b64_alphabet ! (n mod 64)"

text \<open>
  The browser's \<open>btoa\<close> on a binary string (RFC 4648, section 4): three bytes give four
  characters of the alphabet, a last group of one or two bytes is padded with \<open>=\<close>.
\<close>

fun btoa :: "string \<Rightarrow> string" where
  "btoa [] = []"
| "btoa [a] =
     (let n = (of_char a :: nat) * 65536
      in [b64_char (n div 262144), b64_char (n div 4096), CHR ''='', CHR ''=''])"
| "btoa [a, b] =
     (let n = (of_char a :: nat) * 65536 + of_char b * 256
      in [b64_char (n div 262144), b64_char (n div 4096), b64_char (n div 64), CHR ''=''])"
| "btoa (a # b # c # rest) =
     (let n = (of_char a :: nat) * 65536 + of_char b * 256 + of_char c
      in [b64_char (n div 262144), b64_char (n div 4096), b64_char (n div 64), b64_char n])
     @ btoa rest"

text \<open>\<^verbatim>\<open>.replace(/\+/g, '-')\<close> and \<^verbatim>\<open>.replace(/\//g, '_')\<close>: every occurrence is replaced.\<close>

definition replace_all_char :: "char \<Rightarrow> char \<Rightarrow> string \<Rightarrow> string" where
  "replace_all_char a b s = map (\<lambda>c. if c = a then b else c) s"

text \<open>\<^verbatim>\<open>.replace(/=+$/, '')\<close>: the longest run of \<open>=\<close> at the end is removed.\<close>

definition strip_padding :: "string \<Rightarrow> string" where
  "strip_padding s = rev (dropWhile (\<lambda>c. c = CHR ''='') (rev s))"

definition base64URLEncode :: "byte list \<Rightarrow> string" where
  "base64URLEncode buffer =
     strip_padding
       (replace_all_char (CHR ''/'') (CHR ''_'')
         (replace_all_char (CHR ''+'') (CHR ''-'') (btoa (binary_string buffer))))"

text \<open>
  \<open>generateCodeVerifier\<close> fills a 32-byte array from \<open>crypto.getRandomValues\<close>; the
  random bytes are the argument of the model.
\<close>

definition generateCodeVerifier :: "byte list \<Rightarrow> string" where
  "generateCodeVerifier array = base64URLEncode array"

text \<open>
  \<open>TextEncoder.encode\<close> yields UTF-8. A string here holds code units below 256: one
  below 128 is one byte, one from 128 to 255 is two bytes.
\<close>

definition utf8_bytes :: "char \<Rightarrow> byte list" where
  "utf8_bytes c =
     (let n = (of_char c :: nat)
      in if n < 128 then [of_nat n] else [of_nat (192 + n div 64), of_nat (128 + n mod 64)])"

definition text_encode :: "string \<Rightarrow> byte list" where
  "text_encode s = concat (map utf8_bytes s)"

text \<open>
  \<open>generateCodeChallenge\<close>: the digest \<open>crypto.subtle.digest('SHA-256', data)\<close> is a
  primitive of the browser and is a parameter of the model.
\<close>

definition generateCodeChallenge :: "(byte list \<Rightarrow> byte list) \<Rightarrow> string \<Rightarrow> string" where
  "generateCodeChallenge digest verifier = base64URLEncode (digest (text_encode verifier))"

text \<open>The character classes of the two regular expressions.\<close>

definition alnum_chars :: string where
  "alnum_chars = ''ABCDEFGHIJKLMNOPQRSTUVWXYZabcdefghijklmnopqrstuvwxyz0123456789''"

definition unreserved_char :: "char \<Rightarrow> bool" where
  "unreserved_char c \<longleftrightarrow> c \<in> set alnum_chars \<or> c \<in> set ''-._~''"

definition base64url_char :: "char \<Rightarrow> bool" where
  "base64url_char c \<longleftrightarrow> c \<in> set alnum_chars \<or> c \<in> set ''-_''"

text \<open>\<^verbatim>\<open>/^[...]+$/.test(s)\<close>: one or more characters, all of the class.\<close>

definition regex_test_plus :: "(char \<Rightarrow> bool) \<Rightarrow> string \<Rightarrow> bool" where
  "regex_test_plus cls s \<longleftrightarrow> s \<noteq> [] \<and> list_all cls s"

definition validateCodeVerifier :: "string \<Rightarrow> bool" where
  "validateCodeVerifier verifier =
     (if length verifier < 43 \<or> length verifier > 128 then False
      else regex_test_plus unreserved_char verifier)"

definition validateCodeChallenge :: "string \<Rightarrow> bool" where
  "validateCodeChallenge challenge =
     (if length challenge \<noteq> 43 then False
      else regex_test_plus base64url_char challenge)"


definition rfc7636_octets :: "byte list" where
  "rfc7636_octets = [116, 24, 223, 180, 151, 153, 224, 37, 79, 250, 96, 125, 216, 173,
      187, 186, 22, 212, 37, 77, 105, 214, 191, 240, 91, 88, 5, 88, 83, 132, 141, 121]"

definition rfc7636_digest :: "byte list" where
  "rfc7636_digest = [19, 211, 30, 150, 26, 26, 216, 236, 47, 22, 177, 12, 76, 152, 46, 8,
      118, 168, 120, 173, 109, 241, 68, 86, 110, 225, 137, 74, 203, 112, 249, 195]"

subsection \<open>Properties of the encoder\<close>

lemma b64_char_in: "b64_char n \<in> set b64_alphabet"
  unfolding b64_char_def by (rule nth_mem) (simp add: b64_alphabet_def)

lemma length_binary_string: "length (binary_string bs) = length bs"
  by (induction bs) simp_all

lemma btoa_shape:
  "\<exists>body. btoa s = body @ replicate ((3 - length s mod 3) mod 3) (CHR ''='')
     \<and> set body \<subseteq> set b64_alphabet
     \<and> length body + (3 - length s mod 3) mod 3 = 4 * ((length s + 2) div 3)"
proof (induction s rule: btoa.induct)
  case 1
  show ?case by simp
next
  case (2 a)
  let ?n = "(of_char a :: nat) * 65536"
  show ?case
    by (rule exI [of _ "[b64_char (?n div 262144), b64_char (?n div 4096)]"])
      (simp add: b64_char_in Let_def numeral_2_eq_2)
next
  case (3 a b)
  let ?n = "(of_char a :: nat) * 65536 + of_char b * 256"
  show ?case
    by (rule exI [of _ "[b64_char (?n div 262144), b64_char (?n div 4096), b64_char (?n div 64)]"])
      (simp add: b64_char_in Let_def)
next
  case (4 a b c rest)
  then obtain body where b:
    "btoa rest = body @ replicate ((3 - length rest mod 3) mod 3) (CHR ''='')"
    "set body \<subseteq> set b64_alphabet"
    "length body + (3 - length rest mod 3) mod 3 = 4 * ((length rest + 2) div 3)"
    by blast
  let ?n = "(of_char a :: nat) * 65536 + of_char b * 256 + of_char c"
  have m: "length (a # b # c # rest) mod 3 = length rest mod 3"
    by simp
  have d: "(length (a # b # c # rest) + 2) div 3 = Suc ((length rest + 2) div 3)"
    by simp
  show ?case
    unfolding m d using b
    by (intro exI [of _ "[b64_char (?n div 262144), b64_char (?n div 4096),
          b64_char (?n div 64), b64_char ?n] @ body"])
      (simp add: b64_char_in Let_def)
qed

definition to_url_char :: "char \<Rightarrow> char" where
  "to_url_char c =
     (let d = (if c = CHR ''+'' then CHR ''-'' else c) in if d = CHR ''/'' then CHR ''_'' else d)"

lemma replace_all_char_url:
  "replace_all_char (CHR ''/'') (CHR ''_'') (replace_all_char (CHR ''+'') (CHR ''-'') s)
   = map to_url_char s"
  by (simp add: replace_all_char_def to_url_char_def Let_def)

lemma to_url_char_pad: "to_url_char (CHR ''='') = CHR ''=''"
  by (simp add: to_url_char_def)

lemma b64_alphabet_url: "c \<in> set b64_alphabet \<Longrightarrow> base64url_char (to_url_char c)"
  by (auto simp: b64_alphabet_def base64url_char_def alnum_chars_def to_url_char_def)

lemma base64url_not_pad: "base64url_char c \<Longrightarrow> c \<noteq> CHR ''=''"
  by (auto simp: base64url_char_def alnum_chars_def)

lemma base64url_unreserved: "base64url_char c \<Longrightarrow> unreserved_char c"
  by (auto simp: base64url_char_def unreserved_char_def)

lemma strip_padding_body:
  assumes "\<forall>c \<in> set body. c \<noteq> CHR ''=''"
  shows "strip_padding (body @ replicate p (CHR ''='')) = body"
proof -
  have "dropWhile (\<lambda>c. c = CHR ''='') (replicate p (CHR ''='') @ rev body)
        = dropWhile (\<lambda>c. c = CHR ''='') (rev body)"
    by (rule dropWhile_append2) simp
  also have "\<dots> = rev body"
    using assms by (cases "rev body") auto
  finally show ?thesis
    by (simp add: strip_padding_def)
qed

lemma base64URLEncode_32:
  assumes len: "length buffer = 32"
  shows "length (base64URLEncode buffer) = 43
     \<and> list_all base64url_char (base64URLEncode buffer)"
proof -
  have l: "length (binary_string buffer) = 32"
    by (simp add: length_binary_string len)
  from btoa_shape [of "binary_string buffer"] obtain body where
    b: "btoa (binary_string buffer) = body @ replicate 1 (CHR ''='')"
    and s: "set body \<subseteq> set b64_alphabet"
    and n: "length body = 43"
    unfolding l by auto
  have cls: "\<forall>c \<in> set (map to_url_char body). base64url_char c"
  proof
    fix c assume "c \<in> set (map to_url_char body)"
    then obtain d where "d \<in> set body" "c = to_url_char d"
      by auto
    with s show "base64url_char c"
      using b64_alphabet_url by blast
  qed
  then have nopad: "\<forall>c \<in> set (map to_url_char body). c \<noteq> CHR ''=''"
    using base64url_not_pad by blast
  have "base64URLEncode buffer
        = strip_padding (map to_url_char body @ replicate 1 (CHR ''=''))"
    unfolding base64URLEncode_def replace_all_char_url b
    by (simp add: to_url_char_pad)
  also have "\<dots> = map to_url_char body"
    using nopad by (rule strip_padding_body)
  finally have e: "base64URLEncode buffer = map to_url_char body" .
  show ?thesis
    unfolding e using n cls by (simp add: list_all_iff)
qed

text \<open>The encoder reproduces the example of the source's documentation (RFC 7636, appendix B).\<close>

lemma generateCodeVerifier_rfc7636:
  "generateCodeVerifier rfc7636_octets = ''dBjftJeZ4CVP-mB92K27uhbUJU1p1r_wW1gFWFOEjXk''"
  by (simp add: generateCodeVerifier_def rfc7636_octets_def base64URLEncode_def b64_char_def
      b64_alphabet_def replace_all_char_def strip_padding_def)

text \<open>
  Claim C6 (PKCE round trip). Whatever 32 bytes the random source delivers, the generated
  verifier has exactly 43 characters and passes \<open>validateCodeVerifier\<close>. For every
  verifier string, the challenge is a function of that string alone (the digest is a
  function, so two calls on the same verifier agree); with a digest of 32 bytes, as
  SHA-256 produces, the challenge has exactly 43 characters and passes
  \<open>validateCodeChallenge\<close>.
\<close>

theorem pkce_round_trip:
  assumes "length array = 32" and "\<forall>d. length (digest d) = 32"
  shows "length (generateCodeVerifier array) = 43
    \<and> validateCodeVerifier (generateCodeVerifier array)
    \<and> length (generateCodeChallenge digest verifier) = 43
    \<and> validateCodeChallenge (generateCodeChallenge digest verifier)"
proof -
  have v: "length (base64URLEncode array) = 43" "list_all base64url_char (base64URLEncode array)"
    using base64URLEncode_32 [OF assms(1)] by simp_all
  have "length (digest (text_encode verifier)) = 32"
    using assms(2) by simp
  then have c: "length (base64URLEncode (digest (text_encode verifier))) = 43"
    "list_all base64url_char (base64URLEncode (digest (text_encode verifier)))"
    using base64URLEncode_32 by simp_all
  have u: "list_all unreserved_char (base64URLEncode array)"
    using v(2) base64url_unreserved by (auto simp: list_all_iff)
  have ne: "base64URLEncode array \<noteq> []" "base64URLEncode (digest (text_encode verifier)) \<noteq> []"
    using v(1) c(1) by auto
  show ?thesis
    using v c u ne
    by (simp add: generateCodeVerifier_def generateCodeChallenge_def validateCodeVerifier_def
        validateCodeChallenge_def regex_test_plus_def)
qed

text \<open>
  The theorem at the octets of RFC 7636, appendix B, with the digest of that example.
\<close>

theorem pkce_round_trip_witness:
  "length rfc7636_octets = 32 \<and> (\<forall>d. length ((\<lambda>d. rfc7636_digest) d) = 32)
   \<and> length (generateCodeVerifier rfc7636_octets) = 43
   \<and> validateCodeVerifier (generateCodeVerifier rfc7636_octets)
   \<and> length (generateCodeChallenge (\<lambda>d. rfc7636_digest) (generateCodeVerifier rfc7636_octets)) = 43
   \<and> validateCodeChallenge
        (generateCodeChallenge (\<lambda>d. rfc7636_digest) (generateCodeVerifier rfc7636_octets))"
proof -
  have a: "length rfc7636_octets = 32"
    by (simp add: rfc7636_octets_def)
  have d: "\<forall>d. length ((\<lambda>d. rfc7636_digest) d) = 32"
    by (simp add: rfc7636_digest_def)
  show ?thesis
    using a d pkce_round_trip [OF a d, of "generateCodeVerifier rfc7636_octets"] by simp
qed

section \<open>JavaScript values\<close>

text \<open>
  A token or message is a string or \<open>null\<close>: \<open>None\<close> is \<open>null\<close>. The tests
  \<^verbatim>\<open>if (accessToken)\<close> and \<^verbatim>\<open>errorBody.detail || 'Unknown error'\<close> are JavaScript
  truthiness: \<open>null\<close> and the empty string are false.
\<close>

definition truthy :: "string option \<Rightarrow> bool" where
  "truthy v = (case v of None \<Rightarrow> False | Some t \<Rightarrow> t \<noteq> [])"

definition js_or :: "string option \<Rightarrow> string \<Rightarrow> string" where
  "js_or v d = (case v of None \<Rightarrow> d | Some t \<Rightarrow> if t = [] then d else t)"

text \<open>A string or \<open>null\<close> inside a template literal or given to \<open>localStorage.setItem\<close>.\<close>

definition js_string_of :: "string option \<Rightarrow> string" where
  "js_string_of v = (case v of None \<Rightarrow> ''null'' | Some t \<Rightarrow> t)"

text \<open>\<^verbatim>\<open>`${response.status}`\<close>: a natural number in decimal.\<close>

fun show_nat :: "nat \<Rightarrow> string" where
  "show_nat n =
     (if n < 10 then [''0123456789'' ! n]
      else show_nat (n div 10) @ [''0123456789'' ! (n mod 10)])"

declare show_nat.simps [simp del]

text \<open>\<open>String.prototype.includes\<close>; \<open>startsWith\<close> is \<^const>\<open>prefix\<close>.\<close>

primrec js_includes :: "string \<Rightarrow> string \<Rightarrow> bool" where
  "js_includes [] sub = (sub = [])"
| "js_includes (c # cs) sub = (prefix sub (c # cs) \<or> js_includes cs sub)"

text \<open>
  A value read from JSON or from an object: \<open>undefined\<close>, \<open>null\<close>, a boolean, a
  number, a string, an array or an object. A number is given by the string that JavaScript
  prints for it (\<open>7\<close> is \<open>JNum ''7''\<close>, ten to the power 21 is \<open>JNum ''1e+21''\<close>), which is all
  the code observes of a number.
\<close>

datatype jv =
    JUndefined | JNull | JBool bool | JNum string | JStr string
  | JArr "jv list" | JObj "(string \<times> jv) list"

text \<open>Truthiness, as \<open>||\<close> and \<open>if\<close> test it.\<close>

fun js_truthy :: "jv \<Rightarrow> bool" where
  "js_truthy JUndefined = False"
| "js_truthy JNull = False"
| "js_truthy (JBool b) = b"
| "js_truthy (JNum t) = (t \<noteq> ''0'' \<and> t \<noteq> ''NaN'')"
| "js_truthy (JStr t) = (t \<noteq> [])"
| "js_truthy (JArr xs) = True"
| "js_truthy (JObj kv) = True"

text \<open>
  The string of a value, in a template literal or given to \<open>localStorage.setItem\<close>. An
  array prints its elements separated by commas, \<open>null\<close> and \<open>undefined\<close> elements as
  nothing; an object prints as \<open>[object Object]\<close>.
\<close>

fun join_comma :: "string list \<Rightarrow> string" where
  "join_comma [] = []"
| "join_comma [x] = x"
| "join_comma (x # y # ys) = x @ '','' @ join_comma (y # ys)"

fun js_String :: "jv \<Rightarrow> string" where
  "js_String JUndefined = ''undefined''"
| "js_String JNull = ''null''"
| "js_String (JBool b) = (if b then ''true'' else ''false'')"
| "js_String (JNum t) = t"
| "js_String (JStr t) = t"
| "js_String (JArr xs) =
     join_comma (map (\<lambda>x. if x = JUndefined \<or> x = JNull then [] else js_String x) xs)"
| "js_String (JObj kv) = ''[object Object]''"

text \<open>A promise settles with a value or with an \<open>Error\<close> carrying a message.\<close>

datatype js_error = Error (message: string)

section \<open>Low-level transport (serviceUtils.js, attemptFetch)\<close>

text \<open>
  A response whose body is a JSON object, as the backend sends: the object is given by the
  fields this subsystem reads, \<open>content\<close> stands for the rest of the body. The tokens and
  the session id are strings or absent; \<open>detail\<close> is any value (a validation error of the
  backend carries a list), \<open>undefined\<close> when the object has no such field.
\<close>

record json_body =
  detail :: jv
  access_token :: "string option"
  csrf_token :: "string option"
  json_session_id :: "string option"
  content :: string

record http_response =
  status :: nat
  payload :: json_body

text \<open>\<open>response.ok\<close> of the Fetch API: the status is in the range 200 to 299.\<close>

definition ok_status :: "nat \<Rightarrow> bool" where
  "ok_status n \<longleftrightarrow> 200 \<le> n \<and> n \<le> 299"

definition ok :: "http_response \<Rightarrow> bool" where
  "ok response \<longleftrightarrow> ok_status (status response)"

text \<open>
  A response whose body is not a JSON object (an intermediary may answer with HTML or with
  nothing): its status, its text, and what \<open>response.json()\<close> settles with. The body is
  not JSON and \<open>json()\<close> rejects with a \<open>SyntaxError\<close> of the given message, or it is the
  JSON text of \<open>null\<close>, of a boolean, a number, a string or an array.
\<close>

datatype plain_json = PNull | PBool bool | PNum string | PStr string | PArr "jv list"

datatype body_reading = Not_json string | Plain_json plain_json

record plain_response =
  plain_status :: nat
  plain_text :: string
  reading :: body_reading

text \<open>
  What the network does to one \<open>fetch\<close>: the call rejects with an error of some message
  (no response at all), or it delivers a response of one of the two kinds.
\<close>

datatype fetch_outcome =
    Fetch_rejected string
  | Fetch_response http_response
  | Fetch_plain plain_response

datatype js_value =
  Undefined | Null | Str string | Json json_body | Blob string | Plain plain_json

text \<open>The options of \<open>fetch\<close>; \<open>http_method\<close> is the field \<open>method\<close>.\<close>

record request_options =
  http_method :: string
  body :: "string option"
  credentials :: "string option"
  headers :: "string \<rightharpoonup> string"

text \<open>
  Reading \<open>errorBody.detail\<close> of a body that is not an object: \<open>null\<close> has no
  properties and the read throws a \<open>TypeError\<close> (the message is the one of V8); a
  boolean, a number, a string and an array have no property \<open>detail\<close>.
\<close>

definition plain_detail :: "plain_json \<Rightarrow> js_error + jv" where
  "plain_detail v =
     (case v of
        PNull \<Rightarrow> Inl (Error ''Cannot read properties of null (reading 'detail')'')
      | _ \<Rightarrow> Inr JUndefined)"

text \<open>
  \<^verbatim>\<open>const errorMessage = errorBody.detail || 'Unknown error'\<close> and
  \<^verbatim>\<open>new Error(`${response.status} - ${errorMessage}`)\<close>
\<close>

definition status_error :: "nat \<Rightarrow> jv \<Rightarrow> js_error" where
  "status_error code errorBody_detail =
     (let errorMessage = (if js_truthy errorBody_detail then errorBody_detail
                          else JStr ''Unknown error'')
      in Error (show_nat code @ '' - '' @ js_String errorMessage))"

text \<open>
  \<open>attemptFetch(url, options, responseType)\<close>, from the point where \<open>fetch\<close> settles.
  An exception is the left summand. On a status that is not \<open>ok\<close> the body is read with
  \<open>response.json()\<close> first; a 204 returns before any reading.
\<close>

definition attemptFetch ::
  "string \<Rightarrow> request_options \<Rightarrow> string \<Rightarrow> fetch_outcome \<Rightarrow> js_error + js_value" where
  "attemptFetch url options responseType fo =
     (case fo of
        Fetch_rejected msg \<Rightarrow> Inl (Error msg)
      | Fetch_response response \<Rightarrow>
          if \<not> ok response then
            (let errorBody = payload response
             in Inl (status_error (status response) (detail errorBody)))
          else if status response = 204 then Inr Null
          else if responseType = ''blob'' then Inr (Blob (content (payload response)))
          else Inr (Json (payload response))
      | Fetch_plain response \<Rightarrow>
          if \<not> ok_status (plain_status response) then
            (case reading response of
               Not_json msg \<Rightarrow> Inl (Error msg)
             | Plain_json errorBody \<Rightarrow>
                 (case plain_detail errorBody of
                    Inl type_error \<Rightarrow> Inl type_error
                  | Inr d \<Rightarrow> Inl (status_error (plain_status response) d)))
          else if plain_status response = 204 then Inr Null
          else if responseType = ''blob'' then Inr (Blob (plain_text response))
          else
            (case reading response of
               Not_json msg \<Rightarrow> Inl (Error msg)
             | Plain_json PNull \<Rightarrow> Inr Null
             | Plain_json v \<Rightarrow> Inr (Plain v)))"

section \<open>Session state (authStore) and its surroundings\<close>

type_synonym user_data = "(string \<times> jv) list"

text \<open>The user object of the initial state and of \<open>clearUser\<close>.\<close>

definition blank_user :: user_data where
  "blank_user =
     [(''id'', JNull), (''name'', JNull), (''username'', JNull), (''email'', JNull),
      (''city'', JNull), (''birthdate'', JNull), (''preferred_language'', JNull),
      (''gender'', JNull), (''units'', JNull), (''height'', JNull), (''access_type'', JNull),
      (''photo_path'', JNull), (''active'', JNull), (''first_day_of_week'', JStr ''monday''),
      (''currency'', JNull), (''max_heart_rate'', JNull), (''is_strava_linked'', JNull),
      (''is_garminconnect_linked'', JNull), (''default_activity_visibility'', JStr ''public''),
      (''hide_activity_start_time'', JBool False), (''hide_activity_location'', JBool False),
      (''hide_activity_map'', JBool False), (''hide_activity_hr'', JBool False),
      (''hide_activity_power'', JBool False), (''hide_activity_cadence'', JBool False),
      (''hide_activity_elevation'', JBool False), (''hide_activity_speed'', JBool False),
      (''hide_activity_pace'', JBool False), (''hide_activity_laps'', JBool False),
      (''hide_activity_workout_sets_steps'', JBool False), (''hide_activity_gear'', JBool False)]"

text \<open>Reading a property of an object: a missing property is \<open>undefined\<close>.\<close>

definition field :: "user_data \<Rightarrow> string \<Rightarrow> jv" where
  "field u k = (case map_of u k of None \<Rightarrow> JUndefined | Some v \<Rightarrow> v)"

datatype ready_state = CONNECTING | OPEN | CLOSING | CLOSED

record websocket =
  ws_url :: string
  readyState :: ready_state

text \<open>
  A suspended \<open>async\<close> function is a frame: the \<open>await\<close> it stopped at, with the
  variables it needs afterwards. \<open>router\<close> and \<open>locale\<close> of \<open>logoutUser\<close> are kept
  as "was an object passed".
\<close>

datatype frame =
    FetchWithRetry_attempt string request_options string
  | FetchWithRetry_refresh string request_options string
  | FetchWithRetry_retry string request_options string
  | RefreshAccessToken
  | LogoutUser_refresh bool bool
  | LogoutUser_logout bool bool

text \<open>
  A task is a chain of \<open>await\<close>s. It is pending on one \<open>fetch\<close> in flight (the
  \<open>attemptFetch\<close> at the top, with the frames waiting for it), or settled.
\<close>

datatype task =
    Pending string request_options string "frame list"
  | Settled "js_error + js_value"

text \<open>
  The state of the page: the fields of the auth store, \<open>localStorage\<close>, the i18n
  locale, what the browser was told (\<open>window.location.replace\<close>, \<open>router.push\<close>, closed
  sockets, requests given to \<open>fetch\<close> in order), the tasks, the module variable
  \<open>refreshTokenPromise\<close> of serviceUtils.js (the request of the pending promise and
  who awaits it, or \<open>null\<close>), and \<open>window.env.ENDURAIN_HOST\<close> as scheme and rest
  (\<open>scheme://rest\<close>).
\<close>

record state =
  user :: user_data
  isAuthenticated :: bool
  user_websocket :: "websocket option"
  session_id :: "string option"
  accessToken :: "string option"
  csrfToken :: "string option"
  ls_user :: "user_data option"
  ls_session_id :: "string option"
  ls_lang :: "string option"
  locale_value :: jv
  location_replaced :: "string option"
  router_path :: "string option"
  closed_sockets :: "websocket list"
  net_log :: "(string \<times> request_options) list"
  tasks :: "task list"
  refreshTokenPromise :: "(request_options \<times> nat list) option"
  env_scheme :: string
  env_rest :: string

definition API_URL :: "state \<Rightarrow> string" where
  "API_URL s = env_scheme s @ ''://'' @ env_rest s @ ''/api/v1/''"

definition FRONTEND_URL :: "state \<Rightarrow> string" where
  "FRONTEND_URL s = env_scheme s @ ''://'' @ env_rest s @ ''/''"

subsection \<open>Synchronous actions of the store\<close>

definition setLocale :: "jv \<Rightarrow> bool \<Rightarrow> state \<Rightarrow> state" where
  "setLocale language locale s =
     (let s1 = (if locale then s\<lparr>locale_value := language\<rparr> else s)
      in s1\<lparr>ls_lang := Some (js_String language)\<rparr>)"

text \<open>
  \<open>setUserWebsocket\<close>: \<open>API_URL.split('://')\<close> gives the scheme and the rest. The
  constructor is taken to succeed (it throws on a malformed URL only, which the source
  logs).
\<close>

definition setUserWebsocket :: "state \<Rightarrow> state" where
  "setUserWebsocket s =
     (let protocol = (if env_scheme s = ''http'' then ''ws'' else ''wss'');
          websocketURL = protocol @ ''://'' @ env_rest s @ ''/api/v1/'' @ ''ws?access_token=''
            @ js_string_of (accessToken s)
      in s\<lparr>user_websocket := Some \<lparr>ws_url = websocketURL, readyState = CONNECTING\<rparr>\<rparr>)"

text \<open>
  \<^verbatim>\<open>if (this.user_websocket && this.user_websocket.readyState === WebSocket.OPEN) this.user_websocket.close()\<close>
\<close>

definition close_if_open :: "state \<Rightarrow> bool \<times> state" where
  "close_if_open s =
     (case user_websocket s of
        None \<Rightarrow> (False, s)
      | Some ws \<Rightarrow>
          if readyState ws = OPEN
          then (True, s\<lparr>user_websocket := Some (ws\<lparr>readyState := CLOSING\<rparr>),
                        closed_sockets := closed_sockets s @ [ws]\<rparr>)
          else (False, s))"

definition setUserSessionId :: "string option \<Rightarrow> state \<Rightarrow> state" where
  "setUserSessionId sid s = s\<lparr>session_id := sid, ls_session_id := Some (js_string_of sid)\<rparr>"

definition setUser :: "user_data \<Rightarrow> string option \<Rightarrow> bool \<Rightarrow> state \<Rightarrow> state" where
  "setUser userData sid locale s =
     (let s1 = s\<lparr>user := userData\<rparr>;
          s2 = s1\<lparr>ls_user := Some (user s1)\<rparr>;
          s3 = setUserSessionId sid s2;
          s4 = s3\<lparr>isAuthenticated := True\<rparr>;
          s5 = setUserWebsocket s4
      in setLocale (field (user s5) ''preferred_language'') locale s5)"

definition clearUser :: "bool \<Rightarrow> state \<Rightarrow> state" where
  "clearUser locale s =
     (let s1 = s\<lparr>isAuthenticated := False, user := blank_user\<rparr>;
          s2 = snd (close_if_open s1);
          s3 = s2\<lparr>user_websocket := None, session_id := None, accessToken := None,
                  csrfToken := None, ls_user := None, ls_session_id := None\<rparr>
      in setLocale (JStr ''us'') locale s3)"

definition loadUserFromStorage :: "bool \<Rightarrow> state \<Rightarrow> state" where
  "loadUserFromStorage locale s =
     (case ls_user s of
        None \<Rightarrow> s
      | Some storedUser \<Rightarrow>
          (let s1 = s\<lparr>user := storedUser, isAuthenticated := True\<rparr>;
               s2 = setLocale (field (user s1) ''preferred_language'') locale s1
           in s2\<lparr>session_id := ls_session_id s2\<rparr>))"

definition setAccessToken :: "string option \<Rightarrow> state \<Rightarrow> state" where
  "setAccessToken token s = s\<lparr>accessToken := token\<rparr>"

definition setCsrfToken :: "string option \<Rightarrow> state \<Rightarrow> state" where
  "setCsrfToken token s = s\<lparr>csrfToken := token\<rparr>"

text \<open>
  The two ends of the store's \<open>refreshAccessToken\<close>, after \<open>session.refreshToken()\<close> has
  settled. With an access token in the response (lines 253 to 262):
\<close>

definition refresh_succeeded :: "json_body \<Rightarrow> state \<Rightarrow> state" where
  "refresh_succeeded response s =
     (let s1 = s\<lparr>accessToken := access_token response\<rparr>;
          s2 = (if truthy (csrf_token response) then s1\<lparr>csrfToken := csrf_token response\<rparr>
                else s1);
          (closed, s3) = close_if_open s2
      in if closed then setUserWebsocket s3 else s3)"

text \<open>The \<open>catch\<close> block (lines 265 to 271).\<close>

definition refresh_failed :: "state \<Rightarrow> state" where
  "refresh_failed s = s\<lparr>accessToken := None, csrfToken := None, isAuthenticated := False\<rparr>"

text \<open>The state of a freshly loaded page: the store's \<open>state()\<close>, nothing done yet.\<close>

definition fresh_page ::
  "string \<Rightarrow> string \<Rightarrow> user_data option \<Rightarrow> string option \<Rightarrow> string option \<Rightarrow> state" where
  "fresh_page scheme rest stored_user stored_session_id stored_lang =
     \<lparr>user = blank_user, isAuthenticated = False, user_websocket = None, session_id = None,
      accessToken = None, csrfToken = None, ls_user = stored_user,
      ls_session_id = stored_session_id, ls_lang = stored_lang, locale_value = JUndefined,
      location_replaced = None, router_path = None, closed_sockets = [], net_log = [],
      tasks = [], refreshTokenPromise = None, env_scheme = scheme, env_rest = rest\<rparr>"

section \<open>Auth-aware request layer (serviceUtils.js)\<close>

text \<open>
  \<open>addAuthHeaders\<close> is two blocks in a row. The first (lines 25 to 40) adds the bearer
  header, the second (lines 43 to 59) the CSRF header.
\<close>

definition add_bearer :: "string \<Rightarrow> request_options \<Rightarrow> state \<Rightarrow> request_options" where
  "add_bearer url options s =
     (if url \<noteq> ''auth/login'' \<and> url \<noteq> ''password-reset/request''
         \<and> url \<noteq> ''password-reset/confirm'' \<and> url \<noteq> ''sign-up/request''
         \<and> url \<noteq> ''sign-up/confirm'' \<and> \<not> prefix ''public/'' url
      then (if truthy (accessToken s)
            then options\<lparr>headers := (headers options)
                   (''Authorization'' \<mapsto> ''Bearer '' @ js_string_of (accessToken s))\<rparr>
            else options)
      else options)"

definition add_csrf :: "string \<Rightarrow> request_options \<Rightarrow> state \<Rightarrow> request_options" where
  "add_csrf url options s =
     (if http_method options \<in> set [''POST'', ''PUT'', ''DELETE'', ''PATCH'']
         \<and> url \<noteq> ''auth/login'' \<and> url \<noteq> ''auth/mfa/verify''
         \<and> url \<noteq> ''password-reset/request'' \<and> url \<noteq> ''password-reset/confirm''
         \<and> url \<noteq> ''sign-up/request'' \<and> url \<noteq> ''sign-up/confirm''
      then (if truthy (csrfToken s)
            then options\<lparr>headers := (headers options)
                   (''X-CSRF-Token'' \<mapsto> js_string_of (csrfToken s))\<rparr>
            else options)
      else options)"

definition addAuthHeaders :: "string \<Rightarrow> request_options \<Rightarrow> state \<Rightarrow> request_options" where
  "addAuthHeaders url options s = add_csrf url (add_bearer url options s) s"

text \<open>
  Calling \<open>attemptFetch\<close> runs it up to \<open>await fetch(fullUrl, options)\<close>: the request
  is handed to the network and the task is pending on it.
\<close>

definition start_attemptFetch ::
  "string \<Rightarrow> request_options \<Rightarrow> string \<Rightarrow> frame list \<Rightarrow> state \<Rightarrow> task \<times> state" where
  "start_attemptFetch url options responseType k s =
     (Pending url options responseType k, s\<lparr>net_log := net_log s @ [(url, options)]\<rparr>)"

text \<open>\<open>fetchWithRetry\<close> up to its first \<open>await\<close> (line 69).\<close>

definition fetchWithRetry ::
  "string \<Rightarrow> request_options \<Rightarrow> string \<Rightarrow> frame list \<Rightarrow> state \<Rightarrow> task \<times> state" where
  "fetchWithRetry url options responseType k s =
     (let options' = addAuthHeaders url options s
      in start_attemptFetch url options' responseType
           (FetchWithRetry_attempt url options' responseType # k) s)"

text \<open>
  The request builders. A body is given as the string it is serialised to, and the
  \<open>options\<close> of \<open>fetchGetRequest\<close> as their \<open>responseType\<close> (\<open>None\<close> when absent).
\<close>

definition json_headers :: "string \<rightharpoonup> string" where
  "json_headers = [''Content-Type'' \<mapsto> ''application/json'', ''X-Client-Type'' \<mapsto> ''web'']"

definition fetchGetRequest ::
  "string \<Rightarrow> string option \<Rightarrow> frame list \<Rightarrow> state \<Rightarrow> task \<times> state" where
  "fetchGetRequest url options_responseType k s =
     (let requestOptions =
            \<lparr>http_method = ''GET'', body = None, credentials = Some ''include'',
             headers = json_headers\<rparr>;
          responseType = js_or options_responseType ''json''
      in fetchWithRetry url requestOptions responseType k s)"

definition fetchPostFileRequest ::
  "string \<Rightarrow> string \<Rightarrow> frame list \<Rightarrow> state \<Rightarrow> task \<times> state" where
  "fetchPostFileRequest url formData k s =
     fetchWithRetry url
       \<lparr>http_method = ''POST'', body = Some formData, credentials = Some ''include'',
        headers = [''X-Client-Type'' \<mapsto> ''web'']\<rparr>
       ''json'' k s"

definition fetchPostFormUrlEncoded ::
  "string \<Rightarrow> string \<Rightarrow> frame list \<Rightarrow> state \<Rightarrow> task \<times> state" where
  "fetchPostFormUrlEncoded url urlEncodedData k s =
     fetchWithRetry url
       \<lparr>http_method = ''POST'', body = Some urlEncodedData, credentials = Some ''include'',
        headers = [''Content-Type'' \<mapsto> ''application/x-www-form-urlencoded'',
                   ''X-Client-Type'' \<mapsto> ''web'']\<rparr>
       ''json'' k s"

definition fetchPostRequest ::
  "string \<Rightarrow> string \<Rightarrow> frame list \<Rightarrow> state \<Rightarrow> task \<times> state" where
  "fetchPostRequest url data k s =
     fetchWithRetry url
       \<lparr>http_method = ''POST'', body = Some data, credentials = Some ''include'',
        headers = json_headers\<rparr>
       ''json'' k s"

definition fetchPutRequest ::
  "string \<Rightarrow> string \<Rightarrow> frame list \<Rightarrow> state \<Rightarrow> task \<times> state" where
  "fetchPutRequest url data k s =
     fetchWithRetry url
       \<lparr>http_method = ''PUT'', body = Some data, credentials = Some ''include'',
        headers = json_headers\<rparr>
       ''json'' k s"

definition fetchDeleteRequest :: "string \<Rightarrow> frame list \<Rightarrow> state \<Rightarrow> task \<times> state" where
  "fetchDeleteRequest url k s =
     fetchWithRetry url
       \<lparr>http_method = ''DELETE'', body = None, credentials = Some ''include'',
        headers = json_headers\<rparr>
       ''json'' k s"

subsection \<open>Session service (sessionService.js)\<close>

definition session_authenticateUser ::
  "string \<Rightarrow> frame list \<Rightarrow> state \<Rightarrow> task \<times> state" where
  "session_authenticateUser formData k s = fetchPostFormUrlEncoded ''auth/login'' formData k s"

definition session_verifyMFAAndLogin ::
  "string \<Rightarrow> frame list \<Rightarrow> state \<Rightarrow> task \<times> state" where
  "session_verifyMFAAndLogin data k s = fetchPostRequest ''auth/mfa/verify'' data k s"

definition session_logoutUser :: "frame list \<Rightarrow> state \<Rightarrow> task \<times> state" where
  "session_logoutUser k s = fetchPostRequest ''auth/logout'' ''null'' k s"

definition session_refreshToken :: "frame list \<Rightarrow> state \<Rightarrow> task \<times> state" where
  "session_refreshToken k s = fetchPostRequest ''auth/refresh'' ''null'' k s"

subsection \<open>The asynchronous actions of the store\<close>

text \<open>The store's \<open>refreshAccessToken\<close> up to \<open>await session.refreshToken()\<close>.\<close>

definition refreshAccessToken :: "frame list \<Rightarrow> state \<Rightarrow> task \<times> state" where
  "refreshAccessToken k s = session_refreshToken (RefreshAccessToken # k) s"

text \<open>\<open>logoutUser(router, locale)\<close> up to its first \<open>await\<close>.\<close>

definition logoutUser :: "bool \<Rightarrow> bool \<Rightarrow> frame list \<Rightarrow> state \<Rightarrow> task \<times> state" where
  "logoutUser router locale k s =
     (if \<not> truthy (csrfToken s) \<or> \<not> truthy (accessToken s)
      then refreshAccessToken (LogoutUser_refresh router locale # k) s
      else session_logoutUser (LogoutUser_logout router locale # k) s)"

text \<open>
  A call that nobody awaits becomes a task of its own. The call has run up to its first
  \<open>await\<close> when the caller goes on.
\<close>

definition spawn :: "(frame list \<Rightarrow> state \<Rightarrow> task \<times> state) \<Rightarrow> state \<Rightarrow> state" where
  "spawn call s = (let (t, s') = call [] s in s'\<lparr>tasks := tasks s' @ [t]\<rparr>)"

text \<open>
  The inner \<open>catch\<close> of \<open>fetchWithRetry\<close> (lines 94 to 98): \<open>authStore.logoutUser()\<close>
  is called without \<open>await\<close>, then the page is replaced.
\<close>

definition recovery_failed :: "state \<Rightarrow> state" where
  "recovery_failed s =
     (let s1 = spawn (logoutUser False False) s
      in s1\<lparr>location_replaced := Some (FRONTEND_URL s1 @ ''login?sessionExpired=true'')\<rparr>)"

text \<open>
  Resuming a chain of frames with the outcome of the promise its top frame awaits. Each
  equation is the code after one \<open>await\<close>: it hands an outcome to the frame below, or it
  starts the next request and the task is pending again.
\<close>

fun resume :: "js_error + js_value \<Rightarrow> frame list \<Rightarrow> state \<Rightarrow> task \<times> state" where
  "resume out [] s = (Settled out, s)"
| "resume out (FetchWithRetry_attempt url options responseType # k) s =
     (case out of
        Inr v \<Rightarrow> resume (Inr v) k s
      | Inl error \<Rightarrow>
          if prefix ''401'' (message error) \<and> url \<noteq> ''auth/login''
             \<and> url \<noteq> ''auth/refresh'' \<and> url \<noteq> ''auth/logout''
          then
            if url = ''garminconnect/link''
               \<and> js_includes (message error)
                    ''There was an authentication error using Garmin Connect''
            then resume (Inl error) k s
            else if url = ''mfa/verify'' \<and> js_includes (message error) ''Invalid MFA code''
            then resume (Inl error) k s
            else refreshAccessToken (FetchWithRetry_refresh url options responseType # k) s
          else resume (Inl error) k s)"
| "resume out (FetchWithRetry_refresh url options responseType # k) s =
     (case out of
        Inr _ \<Rightarrow>
          (let options' = addAuthHeaders url options s
           in start_attemptFetch url options' responseType
                (FetchWithRetry_retry url options' responseType # k) s)
      | Inl _ \<Rightarrow> resume (Inr Undefined) k (recovery_failed s))"
| "resume out (FetchWithRetry_retry url options responseType # k) s =
     (case out of
        Inr v \<Rightarrow> resume (Inr v) k s
      | Inl _ \<Rightarrow> resume (Inr Undefined) k (recovery_failed s))"
| "resume out (RefreshAccessToken # k) s =
     (case out of
        Inr (Json response) \<Rightarrow>
          if truthy (access_token response)
          then resume (Inr (Str (js_string_of (access_token response)))) k
                 (refresh_succeeded response s)
          else resume (Inl (Error ''No access token in refresh response'')) k (refresh_failed s)
      | Inr _ \<Rightarrow>
          resume (Inl (Error ''No access token in refresh response'')) k (refresh_failed s)
      | Inl error \<Rightarrow> resume (Inl error) k (refresh_failed s))"
| "resume out (LogoutUser_refresh router locale # k) s =
     session_logoutUser (LogoutUser_logout router locale # k) s"
| "resume out (LogoutUser_logout router locale # k) s =
     (let s1 = clearUser locale s;
          s2 = (if router then s1\<lparr>router_path := Some ''/login?logoutSuccess=true''\<rparr> else s1)
      in resume (Inr Undefined) k s2)"

text \<open>
  The network settles the \<open>fetch\<close> of task \<open>i\<close>: \<open>attemptFetch\<close> finishes and the
  frames waiting for it run until the task is pending again or settled.
\<close>

definition deliver :: "nat \<Rightarrow> fetch_outcome \<Rightarrow> state \<Rightarrow> state" where
  "deliver i fo s =
     (if i < length (tasks s) then
        (case tasks s ! i of
           Pending url options responseType k \<Rightarrow>
             (let (t, s') = resume (attemptFetch url options responseType fo) k s
              in s'\<lparr>tasks := (tasks s')[i := t]\<rparr>)
         | Settled _ \<Rightarrow> s)
      else s)"

text \<open>The requests to a URL that are in flight, and those ever made.\<close>

definition in_flight :: "string \<Rightarrow> state \<Rightarrow> nat" where
  "in_flight url s =
     length (filter (\<lambda>t. case t of Pending u _ _ _ \<Rightarrow> u = url | Settled _ \<Rightarrow> False) (tasks s))"

definition calls_to :: "string \<Rightarrow> state \<Rightarrow> nat" where
  "calls_to url s = length (filter (\<lambda>r. fst r = url) (net_log s))"

subsection \<open>The single-flight coordinator of serviceUtils.js\<close>

text \<open>
  The module function \<open>refreshAccessToken\<close> of serviceUtils.js is not exported and nothing
  under src calls it; the 401 path of \<open>fetchWithRetry\<close> calls the store's action instead.
  It is modelled by its two events. A call by \<open>caller\<close>: with a promise pending the caller
  receives that promise, otherwise the request is sent and the new promise is recorded.
\<close>

definition serviceUtils_refreshAccessToken :: "nat \<Rightarrow> state \<Rightarrow> state" where
  "serviceUtils_refreshAccessToken caller s =
     (case refreshTokenPromise s of
        Some (options, awaiting) \<Rightarrow>
          s\<lparr>refreshTokenPromise := Some (options, awaiting @ [caller])\<rparr>
      | None \<Rightarrow>
          (let options = \<lparr>http_method = ''POST'', body = None, credentials = Some ''include'',
                          headers = json_headers\<rparr>;
               options' = (if truthy (csrfToken s)
                           then options\<lparr>headers := (headers options)
                                  (''X-CSRF-Token'' \<mapsto> js_string_of (csrfToken s))\<rparr>
                           else options)
           in s\<lparr>net_log := net_log s @ [(''refresh'', options')],
                refreshTokenPromise := Some (options', [caller])\<rparr>))"

text \<open>
  The \<open>fetch\<close> of the pending promise settles: the body of the promise runs to its end
  (lines 146 to 165) and every awaiting caller receives its outcome. Reading
  \<open>response.access_token\<close> of \<open>null\<close> (a 204, or a body \<open>null\<close>) throws a
  \<open>TypeError\<close>, with the message of V8; a boolean, a number, a string and an array have
  none of the three properties and are returned as they are.
\<close>

definition serviceUtils_refresh_settled ::
  "fetch_outcome \<Rightarrow> state \<Rightarrow> (nat \<times> (js_error + js_value)) list \<times> state" where
  "serviceUtils_refresh_settled fo s =
     (case refreshTokenPromise s of
        None \<Rightarrow> ([], s)
      | Some (options, awaiting) \<Rightarrow>
          (let (out, s') =
                 (case attemptFetch ''refresh'' options ''json'' fo of
                    Inr (Json response) \<Rightarrow>
                      (let s1 = (if truthy (access_token response)
                                 then setAccessToken (access_token response) s else s);
                           s2 = (if truthy (csrf_token response)
                                 then setCsrfToken (csrf_token response) s1 else s1);
                           s3 = (if truthy (json_session_id response)
                                 then setUserSessionId (json_session_id response) s2 else s2)
                       in (Inr (Json response), s3))
                  | Inr Null \<Rightarrow>
                      (Inl (Error ''Cannot read properties of null (reading 'access_token')''),
                       s)
                  | Inr Undefined \<Rightarrow>
                      (Inl (Error
                         ''Cannot read properties of undefined (reading 'access_token')''), s)
                  | Inr response \<Rightarrow> (Inr response, s)
                  | Inl error \<Rightarrow> (Inl error, s))
           in (map (\<lambda>caller. (caller, out)) awaiting, s'\<lparr>refreshTokenPromise := None\<rparr>)))"

section \<open>Notions used by the properties\<close>

text \<open>The allow-list of public endpoints, as the specification enumerates it.\<close>

definition public_endpoint :: "string \<Rightarrow> bool" where
  "public_endpoint url \<longleftrightarrow>
     url \<in> set [''auth/login'', ''password-reset/request'', ''password-reset/confirm'',
                ''sign-up/request'', ''sign-up/confirm'']
     \<or> prefix ''public/'' url"

text \<open>
  A refresh fails when the network rejects the call, when the response is not 2xx, or when
  it carries no access token (a 204 has no body, and a body that is not a JSON object has
  no token).
\<close>

definition refresh_fails :: "fetch_outcome \<Rightarrow> bool" where
  "refresh_fails fo =
     (case fo of
        Fetch_rejected _ \<Rightarrow> True
      | Fetch_response r \<Rightarrow> \<not> ok r \<or> status r = 204 \<or> \<not> truthy (access_token (payload r))
      | Fetch_plain _ \<Rightarrow> True)"

text \<open>
  The invariant of the session state: the two tokens are set together, and a populated
  user (one that is not the blank user of \<open>clearUser\<close>) implies \<open>isAuthenticated\<close>.
\<close>

definition tokens_paired :: "state \<Rightarrow> bool" where
  "tokens_paired s \<longleftrightarrow> (accessToken s \<noteq> None \<longleftrightarrow> csrfToken s \<noteq> None)"

definition user_implies_authenticated :: "state \<Rightarrow> bool" where
  "user_implies_authenticated s \<longleftrightarrow> (user s \<noteq> blank_user \<longrightarrow> isAuthenticated s)"

definition session_invariant :: "state \<Rightarrow> bool" where
  "session_invariant s \<longleftrightarrow> tokens_paired s \<and> user_implies_authenticated s"

text \<open>The session state is cleared entirely: store fields and persisted storage.\<close>

definition session_cleared :: "state \<Rightarrow> bool" where
  "session_cleared s \<longleftrightarrow>
     user s = blank_user \<and> \<not> isAuthenticated s \<and> accessToken s = None \<and> csrfToken s = None
     \<and> session_id s = None \<and> user_websocket s = None \<and> ls_user s = None
     \<and> ls_session_id s = None"

subsection \<open>Concrete inputs\<close>

text \<open>
  An authenticated page with tokens in memory, and the responses of the backend used in
  the examples.
\<close>

definition example_session :: state where
  "example_session =
     (fresh_page ''https'' ''fit.example'' (Some [(''id'', JNum ''7'')]) (Some ''sess-1'') None)
       \<lparr>user := [(''id'', JNum ''7'')], isAuthenticated := True, session_id := Some ''sess-1'',
        accessToken := Some ''stale'', csrfToken := Some ''csrf-0''\<rparr>"

definition error_response :: "nat \<Rightarrow> string option \<Rightarrow> fetch_outcome" where
  "error_response code d =
     Fetch_response
       \<lparr>status = code,
        payload = \<lparr>detail = (case d of None \<Rightarrow> JUndefined | Some t \<Rightarrow> JStr t),
                   access_token = None, csrf_token = None, json_session_id = None,
                   content = []\<rparr>\<rparr>"

definition token_response :: "string \<Rightarrow> string \<Rightarrow> fetch_outcome" where
  "token_response a c =
     Fetch_response
       \<lparr>status = 200,
        payload = \<lparr>detail = JUndefined, access_token = Some a, csrf_token = Some c,
                   json_session_id = Some ''sess-2'', content = []\<rparr>\<rparr>"

text \<open>
  The condition under which the \<open>catch\<close> of \<open>fetchWithRetry\<close> reaches its inner
  \<open>try\<close> (lines 72 to 86), for an error with message \<open>msg\<close>.
\<close>

definition triggers_refresh :: "string \<Rightarrow> string \<Rightarrow> bool" where
  "triggers_refresh url msg \<longleftrightarrow>
     prefix ''401'' msg \<and> url \<noteq> ''auth/login'' \<and> url \<noteq> ''auth/refresh''
     \<and> url \<noteq> ''auth/logout''
     \<and> \<not> (url = ''garminconnect/link''
           \<and> js_includes msg ''There was an authentication error using Garmin Connect'')
     \<and> \<not> (url = ''mfa/verify'' \<and> js_includes msg ''Invalid MFA code'')"

text \<open>The message of the error that \<open>attemptFetch\<close> throws for a 401 response.\<close>

definition message_401 :: "http_response \<Rightarrow> string" where
  "message_401 r = message (status_error 401 (detail (payload r)))"

text \<open>The options of \<open>fetchPostRequest(url, null)\<close>, and the two requests built from them.\<close>

definition post_null :: request_options where
  "post_null =
     \<lparr>http_method = ''POST'', body = Some ''null'', credentials = Some ''include'',
      headers = json_headers\<rparr>"

definition refresh_options :: "state \<Rightarrow> request_options" where
  "refresh_options s = addAuthHeaders ''auth/refresh'' post_null s"

definition logout_options :: "state \<Rightarrow> request_options" where
  "logout_options s = addAuthHeaders ''auth/logout'' post_null s"

text \<open>
  The error that the store's \<open>refreshAccessToken\<close> throws when the refresh fails: the
  error of the transport, or its own when the response carries no access token.
\<close>

definition refresh_error :: "fetch_outcome \<Rightarrow> js_error" where
  "refresh_error fo =
     (case attemptFetch ''auth/refresh'' post_null ''json'' fo of
        Inl e \<Rightarrow> e
      | Inr _ \<Rightarrow> Error ''No access token in refresh response'')"

definition anonymous_page :: state where
  "anonymous_page = fresh_page ''https'' ''fit.example'' None None None"

text \<open>
  The runs of the examples. A profile request of the example session is answered with a
  401 and the refresh it triggers with another 401.
\<close>

definition failed_recovery_example :: state where
  "failed_recovery_example =
     deliver 0 (error_response 401 (Some ''Refresh token expired''))
       (deliver 0 (error_response 401 (Some ''Token expired''))
         (spawn (fetchGetRequest ''profile'' None) example_session))"

text \<open>The store's \<open>refreshAccessToken\<close> of the example session is answered with a 401.\<close>

definition failed_refresh_example :: state where
  "failed_refresh_example =
     deliver 0 (error_response 401 (Some ''Refresh token expired''))
       (spawn refreshAccessToken example_session)"

text \<open>Two requests of the example session are in flight; each is answered with a 401.\<close>

definition concurrent_401_example :: state where
  "concurrent_401_example =
     deliver 1 (error_response 401 (Some ''Token expired''))
       (deliver 0 (error_response 401 (Some ''Token expired''))
         (spawn (fetchGetRequest ''profile/goals'' None)
           (spawn (fetchGetRequest ''profile'' None) example_session)))"

text \<open>
  The run goes on: the first refresh is answered with new tokens, the second, whose refresh
  token has been rotated away by then, with a 401.
\<close>

definition diverging_refresh_example :: state where
  "diverging_refresh_example =
     deliver 1 (error_response 401 (Some ''Refresh token reuse''))
       (deliver 0 (token_response ''fresh'' ''csrf-1'') concurrent_401_example)"

text \<open>
  An anonymous page submits a wrong MFA code: the backend answers 401 with
  \<open>Invalid MFA code\<close>; then the refresh that follows is answered with a 401 as well.
\<close>

definition mfa_rejected_example :: state where
  "mfa_rejected_example =
     deliver 0 (error_response 401 (Some ''Invalid MFA code''))
       (spawn (session_verifyMFAAndLogin ''mfa-form'') anonymous_page)"

definition mfa_refresh_failed_example :: state where
  "mfa_refresh_failed_example =
     deliver 0 (error_response 401 (Some ''Refresh token missing'')) mfa_rejected_example"

text \<open>A page that starts with a persisted user.\<close>

definition reloaded_example :: state where
  "reloaded_example =
     loadUserFromStorage False
       (fresh_page ''https'' ''fit.example'' (Some [(''id'', JNum ''7'')]) (Some ''sess-1'') None)"

text \<open>
  An intermediary answers 502 with an HTML page: \<open>response.json()\<close> rejects with the
  \<open>SyntaxError\<close> of the parser.
\<close>

definition bad_gateway_example :: fetch_outcome where
  "bad_gateway_example =
     Fetch_plain
       \<lparr>plain_status = 502, plain_text = ''<html>Bad Gateway</html>'',
        reading = Not_json ''Unexpected token < in JSON at position 0''\<rparr>"

text \<open>A 500 whose body is the JSON text \<open>null\<close>.\<close>

definition null_body_example :: fetch_outcome where
  "null_body_example =
     Fetch_plain \<lparr>plain_status = 500, plain_text = ''null'', reading = Plain_json PNull\<rparr>"

definition example_options :: request_options where
  "example_options =
     \<lparr>http_method = ''GET'', body = None, credentials = Some ''include'', headers = json_headers\<rparr>"

section \<open>Header injection\<close>

lemma headers_if_update_other:
  "k \<noteq> k' \<Longrightarrow>
   headers (if C then (if D then opts\<lparr>headers := (headers opts)(k \<mapsto> v)\<rparr> else opts) else opts) k'
   = headers opts k'"
  by simp

lemma add_csrf_Authorization:
  "headers (add_csrf url options s) ''Authorization'' = headers options ''Authorization''"
  unfolding add_csrf_def by (rule headers_if_update_other) simp

lemma add_bearer_Authorization:
  "headers (add_bearer url options s) ''Authorization'' =
     (if \<not> public_endpoint url \<and> truthy (accessToken s)
      then Some (''Bearer '' @ js_string_of (accessToken s))
      else headers options ''Authorization'')"
  by (simp add: add_bearer_def public_endpoint_def)

lemma addAuthHeaders_Authorization:
  "headers (addAuthHeaders url options s) ''Authorization'' =
     (if \<not> public_endpoint url \<and> truthy (accessToken s)
      then Some (''Bearer '' @ js_string_of (accessToken s))
      else headers options ''Authorization'')"
  by (simp only: addAuthHeaders_def add_csrf_Authorization add_bearer_Authorization)

text \<open>
  Claim C5 (public endpoint exemption). The request builders start from headers without
  \<open>Authorization\<close>. From such options, \<open>addAuthHeaders\<close> leaves the header absent for
  every allow-listed public endpoint, whatever token is in memory; for every other
  endpoint the header is \<open>Bearer\<close> followed by the token when the token is present (a
  non-empty string, the test \<^verbatim>\<open>if (accessToken)\<close>) and absent when it is not. The
  request that \<open>session.authenticateUser\<close> hands to the network has no such header.
\<close>

theorem public_endpoint_exemption:
  assumes "headers options ''Authorization'' = None"
  shows "(public_endpoint url \<longrightarrow>
            headers (addAuthHeaders url options s) ''Authorization'' = None)
    \<and> (\<not> public_endpoint url \<longrightarrow>
          (\<forall>t. accessToken s = Some t \<and> t \<noteq> [] \<longrightarrow>
             headers (addAuthHeaders url options s) ''Authorization'' = Some (''Bearer '' @ t))
          \<and> (\<not> truthy (accessToken s) \<longrightarrow>
             headers (addAuthHeaders url options s) ''Authorization'' = None))
    \<and> headers (snd (last (net_log (snd (session_authenticateUser formData k s)))))
          ''Authorization'' = None"
proof -
  have "headers (addAuthHeaders ''auth/login'' o1 s) ''Authorization''
        = headers o1 ''Authorization''" for o1
    by (simp add: addAuthHeaders_Authorization public_endpoint_def)
  then have "headers (snd (last (net_log (snd (session_authenticateUser formData k s)))))
          ''Authorization'' = None"
    by (simp add: session_authenticateUser_def fetchPostFormUrlEncoded_def fetchWithRetry_def
        start_attemptFetch_def Let_def)
  then show ?thesis
    using assms
    by (simp add: addAuthHeaders_Authorization truthy_def js_string_of_def)
qed

text \<open>
  The theorem with the stale token of the example session: a login request and a request
  under \<open>public/\<close> carry no header, a profile request carries the bearer token; a
  profile request of an anonymous page carries none.
\<close>

theorem public_endpoint_exemption_witness:
  "headers (addAuthHeaders ''auth/login''
      \<lparr>http_method = ''POST'', body = None, credentials = None, headers = json_headers\<rparr>
      example_session) ''Authorization'' = None
   \<and> headers (addAuthHeaders ''public/idp''
      \<lparr>http_method = ''GET'', body = None, credentials = None, headers = json_headers\<rparr>
      example_session) ''Authorization'' = None
   \<and> headers (addAuthHeaders ''profile''
      \<lparr>http_method = ''GET'', body = None, credentials = None, headers = json_headers\<rparr>
      example_session) ''Authorization'' = Some ''Bearer stale''
   \<and> headers (addAuthHeaders ''profile''
      \<lparr>http_method = ''GET'', body = None, credentials = None, headers = json_headers\<rparr>
      anonymous_page) ''Authorization'' = None"
proof -
  have h: "headers \<lparr>http_method = m, body = None, credentials = None, headers = json_headers\<rparr>
             ''Authorization'' = None" for m
    by (simp add: json_headers_def)
  have p: "public_endpoint ''auth/login''" "public_endpoint ''public/idp''"
    "\<not> public_endpoint ''profile''"
    by (simp_all add: public_endpoint_def)
  have t: "accessToken example_session = Some ''stale''"
    "\<not> truthy (accessToken anonymous_page)"
    by (simp_all add: example_session_def anonymous_page_def fresh_page_def truthy_def)
  show ?thesis
    using public_endpoint_exemption [OF h, where url = "''auth/login''" and s = example_session]
      public_endpoint_exemption [OF h, where url = "''public/idp''" and s = example_session]
      public_endpoint_exemption [OF h, where url = "''profile''" and s = example_session]
      public_endpoint_exemption [OF h, where url = "''profile''" and s = anonymous_page] p t
    by simp
qed

section \<open>Transport\<close>

lemma show_nat_401: "show_nat 401 = ''401''"
  by (simp add: show_nat.simps)

lemma show_nat_404: "show_nat 404 = ''404''"
  by (simp add: show_nat.simps)

lemma show_nat_422: "show_nat 422 = ''422''"
  by (simp add: show_nat.simps)

text \<open>
  Claim C8, as the code has it. A response whose status is outside 200 to 299 and whose
  body is JSON other than \<open>null\<close> makes \<open>attemptFetch\<close> fail with an error whose message is
  the status in decimal, the separator \<open>" - "\<close> and the string of the \<open>detail\<close> field of
  the payload; \<open>Unknown error\<close> takes the place of a \<open>detail\<close> that is absent or falsy,
  and of any body that is a boolean, a number, a string or an array. A 204 succeeds with
  \<open>null\<close> and the body is not read.
\<close>

theorem transport_error_classification:
  "(\<not> (200 \<le> status response \<and> status response \<le> 299) \<longrightarrow>
      attemptFetch url options responseType (Fetch_response response) =
        Inl (Error (show_nat (status response) @ '' - '' @
              (if js_truthy (detail (payload response))
               then js_String (detail (payload response)) else ''Unknown error'')))
      \<and> (\<forall>d. detail (payload response) = JStr d \<and> d \<noteq> [] \<longrightarrow>
            attemptFetch url options responseType (Fetch_response response) =
              Inl (Error (show_nat (status response) @ '' - '' @ d)))
      \<and> (detail (payload response) = JUndefined \<longrightarrow>
            attemptFetch url options responseType (Fetch_response response) =
              Inl (Error (show_nat (status response) @ '' - Unknown error''))))
   \<and> (\<not> (200 \<le> plain_status plain \<and> plain_status plain \<le> 299)
        \<and> reading plain = Plain_json v \<and> v \<noteq> PNull \<longrightarrow>
      attemptFetch url options responseType (Fetch_plain plain) =
        Inl (Error (show_nat (plain_status plain) @ '' - Unknown error'')))
   \<and> (status response = 204 \<longrightarrow>
      (\<forall>p. attemptFetch url options responseType (Fetch_response (response\<lparr>payload := p\<rparr>))
            = Inr Null))
   \<and> (plain_status plain = 204 \<longrightarrow>
      (\<forall>b. attemptFetch url options responseType (Fetch_plain (plain\<lparr>reading := b\<rparr>))
            = Inr Null))"
proof -
  have 1: "attemptFetch url options responseType (Fetch_response response) =
        Inl (Error (show_nat (status response) @ '' - '' @
              (if js_truthy (detail (payload response))
               then js_String (detail (payload response)) else ''Unknown error'')))"
    if "\<not> (200 \<le> status response \<and> status response \<le> 299)"
    using that by (simp add: attemptFetch_def ok_def ok_status_def status_error_def Let_def)
  have 2: "attemptFetch url options responseType (Fetch_plain plain) =
        Inl (Error (show_nat (plain_status plain) @ '' - Unknown error''))"
    if "\<not> (200 \<le> plain_status plain \<and> plain_status plain \<le> 299)"
      and "reading plain = Plain_json v" and "v \<noteq> PNull"
    using that
    by (cases v)
      (simp_all add: attemptFetch_def ok_status_def status_error_def plain_detail_def Let_def)
  have 3: "attemptFetch url options responseType (Fetch_response (response\<lparr>payload := p\<rparr>))
            = Inr Null" if "status response = 204" for p
    using that by (simp add: attemptFetch_def ok_def ok_status_def)
  have 4: "attemptFetch url options responseType (Fetch_plain (plain\<lparr>reading := b\<rparr>))
            = Inr Null" if "plain_status plain = 204" for b
    using that by (simp add: attemptFetch_def ok_status_def)
  from 1 2 3 4 show ?thesis
    by simp
qed

text \<open>
  A 401 with a detail, a 404 without one, a 422 whose detail is a list with one object, a
  404 whose body is a JSON string, and a 204.
\<close>

theorem transport_error_classification_witness:
  "attemptFetch ''profile'' example_options ''json'' (error_response 401 (Some ''Invalid MFA code''))
     = Inl (Error ''401 - Invalid MFA code'')
   \<and> attemptFetch ''profile'' example_options ''json'' (error_response 404 None)
     = Inl (Error ''404 - Unknown error'')
   \<and> attemptFetch ''profile'' example_options ''json''
       (Fetch_response \<lparr>status = 422, payload = \<lparr>detail = JArr [JObj [(''msg'', JStr ''bad'')]],
          access_token = None, csrf_token = None, json_session_id = None, content = []\<rparr>\<rparr>)
     = Inl (Error ''422 - [object Object]'')
   \<and> attemptFetch ''profile'' example_options ''json''
       (Fetch_plain \<lparr>plain_status = 404, plain_text = ''not found'',
          reading = Plain_json (PStr ''not found'')\<rparr>)
     = Inl (Error ''404 - Unknown error'')
   \<and> attemptFetch ''profile'' example_options ''json'' (error_response 204 None) = Inr Null
   \<and> attemptFetch ''profile'' example_options ''json''
       (Fetch_plain \<lparr>plain_status = 204, plain_text = [], reading = Not_json ''Unexpected end''\<rparr>)
     = Inr Null"
  using
    transport_error_classification [where url = "''profile''" and options = example_options
      and responseType = "''json''" and response =
      "\<lparr>status = 401, payload = \<lparr>detail = JStr ''Invalid MFA code'', access_token = None,
          csrf_token = None, json_session_id = None, content = []\<rparr>\<rparr>"
      and plain = "\<lparr>plain_status = 404, plain_text = ''not found'',
          reading = Plain_json (PStr ''not found'')\<rparr>" and v = "PStr ''not found''"]
    transport_error_classification [where url = "''profile''" and options = example_options
      and responseType = "''json''" and response =
      "\<lparr>status = 404, payload = \<lparr>detail = JUndefined, access_token = None,
          csrf_token = None, json_session_id = None, content = []\<rparr>\<rparr>"
      and plain = "\<lparr>plain_status = 204, plain_text = [], reading = Not_json ''Unexpected end''\<rparr>"
      and v = "PStr ''not found''"]
    transport_error_classification [where url = "''profile''" and options = example_options
      and responseType = "''json''" and response =
      "\<lparr>status = 422, payload = \<lparr>detail = JArr [JObj [(''msg'', JStr ''bad'')]],
          access_token = None, csrf_token = None, json_session_id = None, content = []\<rparr>\<rparr>"
      and plain = "\<lparr>plain_status = 204, plain_text = [], reading = Not_json ''Unexpected end''\<rparr>"
      and v = "PStr ''not found''"]
    transport_error_classification [where url = "''profile''" and options = example_options
      and responseType = "''json''" and response =
      "\<lparr>status = 204, payload = \<lparr>detail = JUndefined, access_token = None,
          csrf_token = None, json_session_id = None, content = []\<rparr>\<rparr>"
      and plain = "\<lparr>plain_status = 204, plain_text = [], reading = Not_json ''Unexpected end''\<rparr>"
      and v = "PStr ''not found''"]
  by (simp add: error_response_def show_nat_401 show_nat_404 show_nat_422)

text \<open>
  The claim as stated has every response outside 200 to 299 fail with an error that carries
  the status. The 502 with an HTML body fails with the error of the parser: its message
  holds neither the status nor \<open>Unknown error\<close>. A 500 with the body \<open>null\<close> fails with
  the \<open>TypeError\<close> of reading \<open>detail\<close>.
\<close>

theorem non_json_error_body_loses_status:
  "attemptFetch ''profile'' example_options ''json'' bad_gateway_example
     = Inl (Error ''Unexpected token < in JSON at position 0'')
   \<and> attemptFetch ''profile'' example_options ''json'' bad_gateway_example
     \<noteq> Inl (Error ''502 - Unknown error'')
   \<and> \<not> prefix ''502'' ''Unexpected token < in JSON at position 0''
   \<and> attemptFetch ''profile'' example_options ''json'' null_body_example
     = Inl (Error ''Cannot read properties of null (reading 'detail')'')"
  by (simp add: attemptFetch_def bad_gateway_example_def null_body_example_def ok_status_def
      plain_detail_def)

section \<open>Steps of the task machine\<close>

declare resume.simps [simp del]

lemma attemptFetch_401:
  "status r = 401 \<Longrightarrow>
   attemptFetch url options responseType (Fetch_response r) = Inl (Error (message_401 r))"
  by (simp add: attemptFetch_def ok_def ok_status_def message_401_def)

lemma refreshAccessToken_start:
  "refreshAccessToken k s =
     (Pending ''auth/refresh'' (refresh_options s) ''json''
        (FetchWithRetry_attempt ''auth/refresh'' (refresh_options s) ''json''
           # RefreshAccessToken # k),
      s\<lparr>net_log := net_log s @ [(''auth/refresh'', refresh_options s)]\<rparr>)"
  by (simp add: refreshAccessToken_def session_refreshToken_def fetchPostRequest_def
      fetchWithRetry_def start_attemptFetch_def refresh_options_def post_null_def Let_def)

lemma session_logoutUser_start:
  "session_logoutUser k s =
     (Pending ''auth/logout'' (logout_options s) ''json''
        (FetchWithRetry_attempt ''auth/logout'' (logout_options s) ''json'' # k),
      s\<lparr>net_log := net_log s @ [(''auth/logout'', logout_options s)]\<rparr>)"
  by (simp add: session_logoutUser_def fetchPostRequest_def
      fetchWithRetry_def start_attemptFetch_def logout_options_def post_null_def Let_def)

lemma spawn_fetchWithRetry:
  "spawn (fetchWithRetry url options responseType) s =
     s\<lparr>net_log := net_log s @ [(url, addAuthHeaders url options s)],
       tasks := tasks s @
         [Pending url (addAuthHeaders url options s) responseType
            [FetchWithRetry_attempt url (addAuthHeaders url options s) responseType]]\<rparr>"
  by (simp add: spawn_def fetchWithRetry_def start_attemptFetch_def Let_def)

lemma spawn_refreshAccessToken:
  "spawn refreshAccessToken s =
     s\<lparr>net_log := net_log s @ [(''auth/refresh'', refresh_options s)],
       tasks := tasks s @
         [Pending ''auth/refresh'' (refresh_options s) ''json''
            [FetchWithRetry_attempt ''auth/refresh'' (refresh_options s) ''json'',
             RefreshAccessToken]]\<rparr>"
  by (simp add: spawn_def refreshAccessToken_start)

lemma deliver_pending:
  assumes "i < length (tasks s)" and "tasks s ! i = Pending url options responseType k"
  shows "deliver i fo s =
     (let (t, s') = resume (attemptFetch url options responseType fo) k s
      in s'\<lparr>tasks := (tasks s')[i := t]\<rparr>)"
  using assms by (simp add: deliver_def)

text \<open>A 401 of the login, refresh and logout endpoints is handed on, like every value.\<close>

lemma resume_attempt_passes:
  assumes "url = ''auth/login'' \<or> url = ''auth/refresh'' \<or> url = ''auth/logout''"
  shows "resume out (FetchWithRetry_attempt url options responseType # k) s = resume out k s"
  using assms by (cases out) (auto simp: resume.simps)

lemma resume_attempt_triggers:
  assumes "triggers_refresh url (message e)"
  shows "resume (Inl e) (FetchWithRetry_attempt url options responseType # k) s =
     refreshAccessToken (FetchWithRetry_refresh url options responseType # k) s"
  using assms by (auto simp: triggers_refresh_def resume.simps)

lemma attemptFetch_independent:
  "attemptFetch url options responseType fo = attemptFetch url' options' responseType fo"
  by (simp add: attemptFetch_def)

lemma attemptFetch_refresh_fails:
  assumes "refresh_fails fo"
  shows "(\<exists>e. attemptFetch url options ''json'' fo = Inl e)
     \<or> attemptFetch url options ''json'' fo = Inr Null
     \<or> (\<exists>r. attemptFetch url options ''json'' fo = Inr (Json r) \<and> \<not> truthy (access_token r))
     \<or> (\<exists>v. attemptFetch url options ''json'' fo = Inr (Plain v))"
proof (cases fo)
  case (Fetch_rejected msg)
  then show ?thesis by (simp add: attemptFetch_def)
next
  case (Fetch_response r)
  with assms show ?thesis
    by (auto simp: refresh_fails_def attemptFetch_def Let_def)
next
  case (Fetch_plain p)
  show ?thesis
  proof (cases "reading p")
    case (Not_json msg)
    with Fetch_plain show ?thesis by (simp add: attemptFetch_def)
  next
    case (Plain_json v)
    with Fetch_plain show ?thesis
      by (cases v) (simp_all add: attemptFetch_def plain_detail_def)
  qed
qed

text \<open>A failed refresh throws \<open>refresh_error\<close> after it has cleared the tokens.\<close>

lemma resume_refresh_error:
  assumes "refresh_fails fo"
  shows "resume (attemptFetch url options ''json'' fo) (RefreshAccessToken # k) s =
     resume (Inl (refresh_error fo)) k (refresh_failed s)"
proof -
  have eq: "attemptFetch ''auth/refresh'' post_null ''json'' fo
      = attemptFetch url options ''json'' fo"
    by (rule attemptFetch_independent)
  from attemptFetch_refresh_fails [OF assms, of url options] show ?thesis
    unfolding refresh_error_def eq
    by (elim disjE exE conjE) (simp_all add: resume.simps)
qed

lemma resume_refresh_fails:
  assumes "refresh_fails fo"
  shows "\<exists>e. resume (attemptFetch url options ''json'' fo) (RefreshAccessToken # k) s =
     resume (Inl e) k (refresh_failed s)"
  using resume_refresh_error [OF assms] by blast

lemma attemptFetch_refresh_succeeds:
  assumes "\<not> refresh_fails fo"
  shows "\<exists>r. fo = Fetch_response r \<and> truthy (access_token (payload r))
     \<and> attemptFetch url options ''json'' fo = Inr (Json (payload r))"
  using assms
  by (cases fo) (auto simp: refresh_fails_def attemptFetch_def Let_def)

lemma resume_recovery_fails:
  "resume (Inl e) [FetchWithRetry_refresh url options responseType] s =
     (Settled (Inr Undefined), recovery_failed s)"
  by (simp add: resume.simps)


lemmas run_defs =
  deliver_def spawn_def fetchGetRequest_def fetchPostRequest_def fetchWithRetry_def
  start_attemptFetch_def addAuthHeaders_def add_bearer_def add_csrf_def truthy_def
  attemptFetch_def ok_def ok_status_def status_error_def plain_detail_def js_or_def
  js_string_of_def
  refreshAccessToken_def session_refreshToken_def session_logoutUser_def
  session_verifyMFAAndLogin_def logoutUser_def recovery_failed_def refresh_failed_def
  refresh_succeeded_def close_if_open_def setUserWebsocket_def clearUser_def setLocale_def
  FRONTEND_URL_def in_flight_def calls_to_def error_response_def token_response_def
  json_headers_def Let_def


lemma refresh_failed_frame [simp]:
  "user (refresh_failed s) = user s"
  "user_websocket (refresh_failed s) = user_websocket s"
  "session_id (refresh_failed s) = session_id s"
  "ls_user (refresh_failed s) = ls_user s"
  "ls_session_id (refresh_failed s) = ls_session_id s"
  "ls_lang (refresh_failed s) = ls_lang s"
  "location_replaced (refresh_failed s) = location_replaced s"
  "net_log (refresh_failed s) = net_log s"
  "tasks (refresh_failed s) = tasks s"
  "refreshTokenPromise (refresh_failed s) = refreshTokenPromise s"
  "env_scheme (refresh_failed s) = env_scheme s"
  "env_rest (refresh_failed s) = env_rest s"
  by (simp_all add: refresh_failed_def)

lemma refresh_failed_clears [simp]:
  "accessToken (refresh_failed s) = None"
  "csrfToken (refresh_failed s) = None"
  "isAuthenticated (refresh_failed s) = False"
  by (simp_all add: refresh_failed_def)

lemma refresh_succeeded_frame [simp]:
  "user (refresh_succeeded r s) = user s"
  "isAuthenticated (refresh_succeeded r s) = isAuthenticated s"
  "session_id (refresh_succeeded r s) = session_id s"
  "ls_user (refresh_succeeded r s) = ls_user s"
  "ls_session_id (refresh_succeeded r s) = ls_session_id s"
  "ls_lang (refresh_succeeded r s) = ls_lang s"
  "location_replaced (refresh_succeeded r s) = location_replaced s"
  "net_log (refresh_succeeded r s) = net_log s"
  "tasks (refresh_succeeded r s) = tasks s"
  "refreshTokenPromise (refresh_succeeded r s) = refreshTokenPromise s"
  "env_scheme (refresh_succeeded r s) = env_scheme s"
  "env_rest (refresh_succeeded r s) = env_rest s"
  by (simp_all add: refresh_succeeded_def close_if_open_def setUserWebsocket_def Let_def
      split: option.split prod.split)

lemma refresh_succeeded_tokens:
  "accessToken (refresh_succeeded r s) = access_token r"
  "csrfToken (refresh_succeeded r s) = (if truthy (csrf_token r) then csrf_token r else csrfToken s)"
  by (simp_all add: refresh_succeeded_def close_if_open_def setUserWebsocket_def Let_def
      split: option.split prod.split)

lemma clearUser_frame [simp]:
  "location_replaced (clearUser locale s) = location_replaced s"
  "net_log (clearUser locale s) = net_log s"
  "tasks (clearUser locale s) = tasks s"
  "refreshTokenPromise (clearUser locale s) = refreshTokenPromise s"
  "env_scheme (clearUser locale s) = env_scheme s"
  "env_rest (clearUser locale s) = env_rest s"
  by (simp_all add: clearUser_def close_if_open_def setLocale_def Let_def split: option.split)

lemma session_cleared_clearUser: "session_cleared (clearUser locale s)"
  by (simp add: session_cleared_def clearUser_def close_if_open_def setLocale_def Let_def
      split: option.split)

lemma recovery_failed_after_refresh_failed:
  "recovery_failed (refresh_failed s) =
     (refresh_failed s)
       \<lparr>net_log := net_log s @ [(''auth/refresh'', refresh_options (refresh_failed s))],
        tasks := tasks s @
          [Pending ''auth/refresh'' (refresh_options (refresh_failed s)) ''json''
             [FetchWithRetry_attempt ''auth/refresh'' (refresh_options (refresh_failed s)) ''json'',
              RefreshAccessToken, LogoutUser_refresh False False]],
        location_replaced := Some (FRONTEND_URL s @ ''login?sessionExpired=true'')\<rparr>"
  by (simp add: recovery_failed_def spawn_def logoutUser_def truthy_def refreshAccessToken_start
      FRONTEND_URL_def)

text \<open>
  \<open>logoutUser\<close> from its refresh onwards: whatever the network answers to the refresh and to
  the logout call, the session state ends cleared.
\<close>

lemma logout_after_refresh:
  assumes "j < length (tasks s)"
    and "tasks s ! j = Pending ''auth/refresh'' ro ''json''
           [FetchWithRetry_attempt ''auth/refresh'' ro ''json'', RefreshAccessToken,
            LogoutUser_refresh False False]"
  shows "session_cleared (deliver j fo4 (deliver j fo3 s))"
    and "location_replaced (deliver j fo4 (deliver j fo3 s)) = location_replaced s"
    and "map fst (net_log (deliver j fo4 (deliver j fo3 s))) = map fst (net_log s) @ [''auth/logout'']"
    and "tasks (deliver j fo4 (deliver j fo3 s)) = (tasks s)[j := Settled (Inr Undefined)]"
proof -
  define out where "out = attemptFetch ''auth/refresh'' ro ''json'' fo3"
  have "\<exists>out' s'. resume out [RefreshAccessToken, LogoutUser_refresh False False] s
          = resume out' [LogoutUser_refresh False False] s'
        \<and> location_replaced s' = location_replaced s \<and> net_log s' = net_log s
        \<and> tasks s' = tasks s"
  proof (cases out)
    case (Inl e)
    then show ?thesis
      by (intro exI [of _ "Inl e"] exI [of _ "refresh_failed s"]) (simp add: resume.simps)
  next
    case (Inr v)
    show ?thesis
    proof (cases v)
      case (Json r)
      show ?thesis
      proof (cases "truthy (access_token r)")
        case True
        with Inr Json show ?thesis
          by (intro exI [of _ "Inr (Str (js_string_of (access_token r)))"]
              exI [of _ "refresh_succeeded r s"]) (simp add: resume.simps)
      next
        case False
        with Inr Json show ?thesis
          by (intro exI [of _ "Inl (Error ''No access token in refresh response'')"]
              exI [of _ "refresh_failed s"]) (simp add: resume.simps)
      qed
    qed (use Inr in \<open>(intro exI [of _ "Inl (Error ''No access token in refresh response'')"]
              exI [of _ "refresh_failed s"], simp add: resume.simps)+\<close>)
  qed
  then obtain out' s' where r:
    "resume out [RefreshAccessToken, LogoutUser_refresh False False] s
       = resume out' [LogoutUser_refresh False False] s'"
    and f: "location_replaced s' = location_replaced s" "net_log s' = net_log s"
      "tasks s' = tasks s"
    by blast
  define s3 where "s3 = deliver j fo3 s"
  have s3: "s3 = s'\<lparr>net_log := net_log s @ [(''auth/logout'', logout_options s')],
       tasks := (tasks s)[j := Pending ''auth/logout'' (logout_options s') ''json''
         [FetchWithRetry_attempt ''auth/logout'' (logout_options s') ''json'',
          LogoutUser_logout False False]]\<rparr>"
    unfolding s3_def deliver_pending [OF assms]
    by (simp add: resume_attempt_passes r [unfolded out_def] resume.simps(6)
        session_logoutUser_start f)
  have j3: "j < length (tasks s3)"
    "tasks s3 ! j = Pending ''auth/logout'' (logout_options s') ''json''
         [FetchWithRetry_attempt ''auth/logout'' (logout_options s') ''json'',
          LogoutUser_logout False False]"
    using assms(1) by (simp_all add: s3)
  have s4: "deliver j fo4 s3 = (clearUser False s3)\<lparr>tasks := (tasks s)[j := Settled (Inr Undefined)]\<rparr>"
    unfolding deliver_pending [OF j3]
    by (simp add: resume_attempt_passes resume.simps(1,7) s3)
  show "session_cleared (deliver j fo4 (deliver j fo3 s))"
    using session_cleared_clearUser [of False s3]
    by (simp add: s4 s3_def [symmetric] session_cleared_def)
  show "location_replaced (deliver j fo4 (deliver j fo3 s)) = location_replaced s"
    by (simp add: s4 s3_def [symmetric]) (simp add: s3 f)
  show "map fst (net_log (deliver j fo4 (deliver j fo3 s))) = map fst (net_log s) @ [''auth/logout'']"
    by (simp add: s4 s3_def [symmetric]) (simp add: s3)
  show "tasks (deliver j fo4 (deliver j fo3 s)) = (tasks s)[j := Settled (Inr Undefined)]"
    by (simp add: s4 s3_def [symmetric])
qed


text \<open>
  A request whose 401 triggers the refresh, and whose refresh fails: the state after the
  two answers, as an update of the state before the request.
\<close>

lemma failed_recovery:
  assumes "status r1 = 401" and "triggers_refresh url (message_401 r1)" and "refresh_fails fo2"
  shows "\<exists>o1 ro1 ro2.
     deliver (length (tasks s)) fo2
       (deliver (length (tasks s)) (Fetch_response r1)
         (spawn (fetchWithRetry url options responseType) s)) =
     s\<lparr>isAuthenticated := False, accessToken := None, csrfToken := None,
       location_replaced := Some (FRONTEND_URL s @ ''login?sessionExpired=true''),
       net_log := net_log s @ [(url, o1), (''auth/refresh'', ro1), (''auth/refresh'', ro2)],
       tasks := tasks s @
         [Settled (Inr Undefined),
          Pending ''auth/refresh'' ro2 ''json''
            [FetchWithRetry_attempt ''auth/refresh'' ro2 ''json'', RefreshAccessToken,
             LogoutUser_refresh False False]]\<rparr>"
proof -
  define i where "i = length (tasks s)"
  define o1 where "o1 = addAuthHeaders url options s"
  define sa where "sa = spawn (fetchWithRetry url options responseType) s"
  have sa: "sa = s\<lparr>net_log := net_log s @ [(url, o1)],
       tasks := tasks s @ [Pending url o1 responseType [FetchWithRetry_attempt url o1 responseType]]\<rparr>"
    by (simp add: sa_def o1_def spawn_fetchWithRetry)
  have ia: "i < length (tasks sa)"
    "tasks sa ! i = Pending url o1 responseType [FetchWithRetry_attempt url o1 responseType]"
    by (simp_all add: sa i_def)
  define ro1 where "ro1 = refresh_options sa"
  define sb where "sb = deliver i (Fetch_response r1) sa"
  have sb: "sb = s\<lparr>net_log := net_log s @ [(url, o1), (''auth/refresh'', ro1)],
       tasks := tasks s @ [Pending ''auth/refresh'' ro1 ''json''
         [FetchWithRetry_attempt ''auth/refresh'' ro1 ''json'', RefreshAccessToken,
          FetchWithRetry_refresh url o1 responseType]]\<rparr>"
    unfolding sb_def deliver_pending [OF ia]
    by (simp add: attemptFetch_401 assms resume_attempt_triggers refreshAccessToken_start
        ro1_def [symmetric]) (simp add: sa i_def)
  have ib: "i < length (tasks sb)"
    "tasks sb ! i = Pending ''auth/refresh'' ro1 ''json''
         [FetchWithRetry_attempt ''auth/refresh'' ro1 ''json'', RefreshAccessToken,
          FetchWithRetry_refresh url o1 responseType]"
    by (simp_all add: sb i_def)
  obtain e where e:
    "resume (attemptFetch ''auth/refresh'' ro1 ''json'' fo2)
       (RefreshAccessToken # [FetchWithRetry_refresh url o1 responseType]) sb
     = resume (Inl e) [FetchWithRetry_refresh url o1 responseType] (refresh_failed sb)"
    using resume_refresh_fails [OF assms(3)] by blast
  define ro2 where "ro2 = refresh_options (refresh_failed sb)"
  have "deliver i fo2 sb =
     s\<lparr>isAuthenticated := False, accessToken := None, csrfToken := None,
       location_replaced := Some (FRONTEND_URL s @ ''login?sessionExpired=true''),
       net_log := net_log s @ [(url, o1), (''auth/refresh'', ro1), (''auth/refresh'', ro2)],
       tasks := tasks s @
         [Settled (Inr Undefined),
          Pending ''auth/refresh'' ro2 ''json''
            [FetchWithRetry_attempt ''auth/refresh'' ro2 ''json'', RefreshAccessToken,
             LogoutUser_refresh False False]]\<rparr>"
    unfolding deliver_pending [OF ib]
    by (simp add: resume_attempt_passes e resume_recovery_fails
        recovery_failed_after_refresh_failed ro2_def [symmetric])
      (simp add: sb refresh_failed_def i_def FRONTEND_URL_def)
  then show ?thesis
    unfolding sb_def sa_def i_def by blast
qed


section \<open>Failure of the refresh in the 401 path\<close>

text \<open>
  Claim C10, as the code has it. When the 401 of a request triggers the refresh and the
  refresh fails, the promise of \<open>fetchWithRetry\<close> resolves with \<open>undefined\<close>: neither
  the 401 nor the error of the refresh reaches the caller. At that moment the redirect to
  \<open>login?sessionExpired=true\<close> has been issued, both tokens are \<open>null\<close> and
  \<open>isAuthenticated\<close> is false; the user, the session id, the websocket and the persisted
  storage are as before, because \<open>logoutUser\<close> was called without \<open>await\<close> and is
  still waiting for its own refresh call.
\<close>

theorem failed_recovery_resolves_undefined:
  assumes "status r1 = 401" and "triggers_refresh url (message_401 r1)" and "refresh_fails fo2"
  shows "let i = length (tasks s);
             s2 = deliver i fo2
                    (deliver i (Fetch_response r1)
                      (spawn (fetchWithRetry url options responseType) s))
         in tasks s2 ! i = Settled (Inr Undefined)
          \<and> location_replaced s2 = Some (FRONTEND_URL s @ ''login?sessionExpired=true'')
          \<and> accessToken s2 = None \<and> csrfToken s2 = None \<and> \<not> isAuthenticated s2
          \<and> user s2 = user s \<and> session_id s2 = session_id s
          \<and> user_websocket s2 = user_websocket s
          \<and> ls_user s2 = ls_user s \<and> ls_session_id s2 = ls_session_id s
          \<and> (\<exists>ro. tasks s2 ! Suc i =
                Pending ''auth/refresh'' ro ''json''
                  [FetchWithRetry_attempt ''auth/refresh'' ro ''json'', RefreshAccessToken,
                   LogoutUser_refresh False False])"
proof -
  from failed_recovery [OF assms, of s options responseType]
  obtain o1 ro1 ro2 where
    "deliver (length (tasks s)) fo2
       (deliver (length (tasks s)) (Fetch_response r1)
         (spawn (fetchWithRetry url options responseType) s)) =
     s\<lparr>isAuthenticated := False, accessToken := None, csrfToken := None,
       location_replaced := Some (FRONTEND_URL s @ ''login?sessionExpired=true''),
       net_log := net_log s @ [(url, o1), (''auth/refresh'', ro1), (''auth/refresh'', ro2)],
       tasks := tasks s @
         [Settled (Inr Undefined),
          Pending ''auth/refresh'' ro2 ''json''
            [FetchWithRetry_attempt ''auth/refresh'' ro2 ''json'', RefreshAccessToken,
             LogoutUser_refresh False False]]\<rparr>"
    by blast
  then show ?thesis
    by (simp add: Let_def nth_append)
qed

lemma example_401_triggers:
  "triggers_refresh ''profile''
     (message_401 \<lparr>status = 401, payload = \<lparr>detail = JStr ''Token expired'',
        access_token = None, csrf_token = None, json_session_id = None, content = []\<rparr>\<rparr>)"
  by (simp add: triggers_refresh_def message_401_def status_error_def show_nat_401)

lemma example_refresh_fails: "refresh_fails (error_response 401 (Some ''Refresh token expired''))"
  by (simp add: refresh_fails_def error_response_def ok_def ok_status_def)

text \<open>The theorem at a profile request of the example session.\<close>

theorem failed_recovery_resolves_undefined_witness:
  "tasks (deliver 0 (error_response 401 (Some ''Refresh token expired''))
            (deliver 0 (error_response 401 (Some ''Token expired''))
              (spawn (fetchWithRetry ''profile'' example_options ''json'') example_session))) ! 0
     = Settled (Inr Undefined)
   \<and> location_replaced
        (deliver 0 (error_response 401 (Some ''Refresh token expired''))
            (deliver 0 (error_response 401 (Some ''Token expired''))
              (spawn (fetchWithRetry ''profile'' example_options ''json'') example_session)))
     = Some ''https://fit.example/login?sessionExpired=true''"
  using failed_recovery_resolves_undefined
    [OF _ example_401_triggers example_refresh_fails, of example_session example_options "''json''"]
  by (simp add: Let_def error_response_def example_session_def fresh_page_def FRONTEND_URL_def)

text \<open>
  The claim as stated puts the resolution after the clearing of the session. In the
  example the promise has resolved while the user, the session id and the persisted user
  are still in place.
\<close>

theorem resolved_before_session_cleared:
  "tasks failed_recovery_example ! 0 = Settled (Inr Undefined)
   \<and> \<not> session_cleared failed_recovery_example
   \<and> user failed_recovery_example = [(''id'', JNum ''7'')]
   \<and> session_id failed_recovery_example = Some ''sess-1''
   \<and> ls_user failed_recovery_example = Some [(''id'', JNum ''7'')]
   \<and> ls_session_id failed_recovery_example = Some ''sess-1''"
  by (simp add: failed_recovery_example_def run_defs resume.simps session_cleared_def
      example_session_def fresh_page_def show_nat_401)

text \<open>
  Claim C7, as the code has it. When the 401 of a request triggers the refresh and the
  refresh fails, the browser is redirected to \<open>login?sessionExpired=true\<close> and the
  original request is not sent again. The \<open>logoutUser\<close> that the handler starts finds
  the tokens cleared by the failed refresh, so it makes one more call to
  \<open>auth/refresh\<close> and then one to \<open>auth/logout\<close>; whatever the network answers to
  these two, the session state ends cleared entirely (user, tokens, session id, websocket,
  persisted user and session id) and no further request is made.
\<close>

theorem refresh_failure_teardown:
  assumes "status r1 = 401" and "triggers_refresh url (message_401 r1)" and "refresh_fails fo2"
  shows "let i = length (tasks s);
             s2 = deliver i fo2
                    (deliver i (Fetch_response r1)
                      (spawn (fetchWithRetry url options responseType) s));
             s4 = deliver (Suc i) fo4 (deliver (Suc i) fo3 s2)
         in location_replaced s2 = Some (FRONTEND_URL s @ ''login?sessionExpired=true'')
          \<and> map fst (net_log s2) = map fst (net_log s) @ [url, ''auth/refresh'', ''auth/refresh'']
          \<and> session_cleared s4
          \<and> location_replaced s4 = Some (FRONTEND_URL s @ ''login?sessionExpired=true'')
          \<and> map fst (net_log s4) =
              map fst (net_log s) @ [url, ''auth/refresh'', ''auth/refresh'', ''auth/logout'']
          \<and> tasks s4 = tasks s @ [Settled (Inr Undefined), Settled (Inr Undefined)]"
proof -
  define s2 where "s2 = deliver (length (tasks s)) fo2
       (deliver (length (tasks s)) (Fetch_response r1)
         (spawn (fetchWithRetry url options responseType) s))"
  from failed_recovery [OF assms, of s options responseType]
  obtain o1 ro1 ro2 where s2:
    "s2 = s\<lparr>isAuthenticated := False, accessToken := None, csrfToken := None,
       location_replaced := Some (FRONTEND_URL s @ ''login?sessionExpired=true''),
       net_log := net_log s @ [(url, o1), (''auth/refresh'', ro1), (''auth/refresh'', ro2)],
       tasks := tasks s @
         [Settled (Inr Undefined),
          Pending ''auth/refresh'' ro2 ''json''
            [FetchWithRetry_attempt ''auth/refresh'' ro2 ''json'', RefreshAccessToken,
             LogoutUser_refresh False False]]\<rparr>"
    unfolding s2_def by blast
  have j: "Suc (length (tasks s)) < length (tasks s2)"
    "tasks s2 ! Suc (length (tasks s)) = Pending ''auth/refresh'' ro2 ''json''
            [FetchWithRetry_attempt ''auth/refresh'' ro2 ''json'', RefreshAccessToken,
             LogoutUser_refresh False False]"
    by (simp_all add: s2 nth_append)
  note l = logout_after_refresh [OF j, of fo4 fo3]
  have "location_replaced s2 = Some (FRONTEND_URL s @ ''login?sessionExpired=true'')"
    "map fst (net_log s2) = map fst (net_log s) @ [url, ''auth/refresh'', ''auth/refresh'']"
    "tasks s2 = tasks s @ [Settled (Inr Undefined), Pending ''auth/refresh'' ro2 ''json''
            [FetchWithRetry_attempt ''auth/refresh'' ro2 ''json'', RefreshAccessToken,
             LogoutUser_refresh False False]]"
    by (simp_all add: s2)
  with l show ?thesis
    unfolding Let_def s2_def [symmetric] by (simp add: list_update_append)
qed

text \<open>The theorem at a profile request of the example session.\<close>

theorem refresh_failure_teardown_witness:
  "session_cleared
     (deliver 1 (error_response 500 None)
       (deliver 1 (error_response 401 (Some ''Refresh token expired''))
         (deliver 0 (error_response 401 (Some ''Refresh token expired''))
           (deliver 0 (error_response 401 (Some ''Token expired''))
             (spawn (fetchWithRetry ''profile'' example_options ''json'') example_session)))))
   \<and> map fst (net_log
     (deliver 1 (error_response 500 None)
       (deliver 1 (error_response 401 (Some ''Refresh token expired''))
         (deliver 0 (error_response 401 (Some ''Refresh token expired''))
           (deliver 0 (error_response 401 (Some ''Token expired''))
             (spawn (fetchWithRetry ''profile'' example_options ''json'') example_session))))))
     = [''profile'', ''auth/refresh'', ''auth/refresh'', ''auth/logout'']"
  using refresh_failure_teardown
    [OF _ example_401_triggers example_refresh_fails, of example_session example_options "''json''"
      "error_response 500 None" "error_response 401 (Some ''Refresh token expired'')"]
  by (simp add: Let_def error_response_def example_session_def fresh_page_def)

text \<open>
  The claim as stated excludes a second refresh attempt. In the example the handling of
  the one failed request has handed two calls to \<open>auth/refresh\<close> to the network by the
  time the redirect is issued.
\<close>

theorem second_refresh_after_failed_refresh:
  "calls_to ''auth/refresh'' example_session = 0
   \<and> calls_to ''auth/refresh'' failed_recovery_example = 2
   \<and> calls_to ''profile'' failed_recovery_example = 1
   \<and> location_replaced failed_recovery_example
       = Some ''https://fit.example/login?sessionExpired=true''"
  by (simp add: failed_recovery_example_def run_defs resume.simps example_session_def
      fresh_page_def show_nat_401)


section \<open>The store's refresh as a task of its own\<close>

lemma refresh_succeeded_commute:
  "refresh_succeeded r (s\<lparr>net_log := n, tasks := t\<rparr>) =
     (refresh_succeeded r s)\<lparr>net_log := n, tasks := t\<rparr>"
  by (simp add: refresh_succeeded_def close_if_open_def setUserWebsocket_def Let_def
      split: option.split)

lemma store_refresh_failure_error:
  assumes "refresh_fails fo"
  shows "\<exists>ro. deliver (length (tasks s)) fo (spawn refreshAccessToken s) =
     s\<lparr>isAuthenticated := False, accessToken := None, csrfToken := None,
       net_log := net_log s @ [(''auth/refresh'', ro)],
       tasks := tasks s @ [Settled (Inl (refresh_error fo))]\<rparr>"
proof -
  define sa where "sa = spawn refreshAccessToken s"
  define ro where "ro = refresh_options s"
  have sa: "sa = s\<lparr>net_log := net_log s @ [(''auth/refresh'', ro)],
       tasks := tasks s @ [Pending ''auth/refresh'' ro ''json''
            [FetchWithRetry_attempt ''auth/refresh'' ro ''json'', RefreshAccessToken]]\<rparr>"
    by (simp add: sa_def ro_def spawn_refreshAccessToken)
  have i: "length (tasks s) < length (tasks sa)"
    "tasks sa ! length (tasks s) = Pending ''auth/refresh'' ro ''json''
            [FetchWithRetry_attempt ''auth/refresh'' ro ''json'', RefreshAccessToken]"
    by (simp_all add: sa)
  have "deliver (length (tasks s)) fo sa =
     s\<lparr>isAuthenticated := False, accessToken := None, csrfToken := None,
       net_log := net_log s @ [(''auth/refresh'', ro)],
       tasks := tasks s @ [Settled (Inl (refresh_error fo))]\<rparr>"
    unfolding deliver_pending [OF i]
    by (simp add: resume_attempt_passes resume_refresh_error [OF assms] resume.simps(1))
      (simp add: sa refresh_failed_def)
  then show ?thesis
    unfolding sa_def by blast
qed

lemma store_refresh_failure:
  assumes "refresh_fails fo"
  shows "\<exists>e ro. deliver (length (tasks s)) fo (spawn refreshAccessToken s) =
     s\<lparr>isAuthenticated := False, accessToken := None, csrfToken := None,
       net_log := net_log s @ [(''auth/refresh'', ro)],
       tasks := tasks s @ [Settled (Inl e)]\<rparr>"
proof -
  define sa where "sa = spawn refreshAccessToken s"
  define ro where "ro = refresh_options s"
  have sa: "sa = s\<lparr>net_log := net_log s @ [(''auth/refresh'', ro)],
       tasks := tasks s @ [Pending ''auth/refresh'' ro ''json''
            [FetchWithRetry_attempt ''auth/refresh'' ro ''json'', RefreshAccessToken]]\<rparr>"
    by (simp add: sa_def ro_def spawn_refreshAccessToken)
  have i: "length (tasks s) < length (tasks sa)"
    "tasks sa ! length (tasks s) = Pending ''auth/refresh'' ro ''json''
            [FetchWithRetry_attempt ''auth/refresh'' ro ''json'', RefreshAccessToken]"
    by (simp_all add: sa)
  obtain e where e:
    "resume (attemptFetch ''auth/refresh'' ro ''json'' fo) (RefreshAccessToken # []) sa
     = resume (Inl e) [] (refresh_failed sa)"
    using resume_refresh_fails [OF assms] by blast
  have "deliver (length (tasks s)) fo sa =
     s\<lparr>isAuthenticated := False, accessToken := None, csrfToken := None,
       net_log := net_log s @ [(''auth/refresh'', ro)],
       tasks := tasks s @ [Settled (Inl e)]\<rparr>"
    unfolding deliver_pending [OF i]
    by (simp add: resume_attempt_passes e resume.simps(1)) (simp add: sa refresh_failed_def)
  then show ?thesis
    unfolding sa_def by blast
qed

lemma store_refresh_success:
  assumes "\<not> refresh_fails fo"
  shows "\<exists>r ro. fo = Fetch_response r \<and> truthy (access_token (payload r))
     \<and> deliver (length (tasks s)) fo (spawn refreshAccessToken s) =
       (refresh_succeeded (payload r) s)
         \<lparr>net_log := net_log s @ [(''auth/refresh'', ro)],
          tasks := tasks s @ [Settled (Inr (Str (js_string_of (access_token (payload r)))))]\<rparr>"
proof -
  define sa where "sa = spawn refreshAccessToken s"
  define ro where "ro = refresh_options s"
  have sa: "sa = s\<lparr>net_log := net_log s @ [(''auth/refresh'', ro)],
       tasks := tasks s @ [Pending ''auth/refresh'' ro ''json''
            [FetchWithRetry_attempt ''auth/refresh'' ro ''json'', RefreshAccessToken]]\<rparr>"
    by (simp add: sa_def ro_def spawn_refreshAccessToken)
  have i: "length (tasks s) < length (tasks sa)"
    "tasks sa ! length (tasks s) = Pending ''auth/refresh'' ro ''json''
            [FetchWithRetry_attempt ''auth/refresh'' ro ''json'', RefreshAccessToken]"
    by (simp_all add: sa)
  from attemptFetch_refresh_succeeds [OF assms, of "''auth/refresh''" ro]
  obtain r where r: "fo = Fetch_response r" "truthy (access_token (payload r))"
    "attemptFetch ''auth/refresh'' ro ''json'' fo = Inr (Json (payload r))"
    by blast
  have "deliver (length (tasks s)) fo sa =
       (refresh_succeeded (payload r) s)
         \<lparr>net_log := net_log s @ [(''auth/refresh'', ro)],
          tasks := tasks s @ [Settled (Inr (Str (js_string_of (access_token (payload r)))))]\<rparr>"
    unfolding deliver_pending [OF i]
    by (simp add: resume_attempt_passes r(1,2) r(3) [unfolded r(1)] resume.simps(1,5))
      (simp add: sa refresh_succeeded_commute)
  with r show ?thesis
    unfolding sa_def by blast
qed


section \<open>Reload\<close>

lemma loadUserFromStorage_fresh_page:
  "loadUserFromStorage locale (fresh_page scheme rest (Some u) sid lang) =
     (fresh_page scheme rest (Some u) sid lang)
       \<lparr>user := u, isAuthenticated := True, session_id := sid,
        ls_lang := Some (js_String (field u ''preferred_language'')),
        locale_value := (if locale then field u ''preferred_language'' else JUndefined)\<rparr>"
  by (simp add: loadUserFromStorage_def fresh_page_def setLocale_def Let_def)

text \<open>
  Claim C9 (reload). A page that starts with a persisted user and runs
  \<open>loadUserFromStorage\<close> has both tokens \<open>null\<close>, the user of the storage and
  \<open>isAuthenticated\<close> true. A refresh that then succeeds (a 2xx response with a body that
  carries an access token and a CSRF token, as the backend sends) sets both tokens and
  leaves the user object as it was; the same holds for a successful refresh from any state.
\<close>

theorem reload_token_loss:
  assumes "200 \<le> status r" and "status r \<le> 299" and "status r \<noteq> 204"
    and "access_token (payload r) = Some a" and "a \<noteq> []"
    and "csrf_token (payload r) = Some c" and "c \<noteq> []"
  shows "let s0 = loadUserFromStorage loc (fresh_page scheme rest (Some u) sid lang);
             s1 = deliver 0 (Fetch_response r) (spawn refreshAccessToken s0);
             s' = deliver (length (tasks s)) (Fetch_response r) (spawn refreshAccessToken s)
         in accessToken s0 = None \<and> csrfToken s0 = None \<and> user s0 = u \<and> isAuthenticated s0
          \<and> accessToken s1 = Some a \<and> csrfToken s1 = Some c \<and> user s1 = u
          \<and> isAuthenticated s1 \<and> tasks s1 = [Settled (Inr (Str a))]
          \<and> accessToken s' = Some a \<and> csrfToken s' = Some c \<and> user s' = user s
          \<and> isAuthenticated s' = isAuthenticated s"
proof -
  have ok: "\<not> refresh_fails (Fetch_response r)"
    using assms by (simp add: refresh_fails_def ok_def ok_status_def truthy_def)
  have gen: "accessToken (deliver (length (tasks t)) (Fetch_response r) (spawn refreshAccessToken t))
        = Some a
      \<and> csrfToken (deliver (length (tasks t)) (Fetch_response r) (spawn refreshAccessToken t))
        = Some c
      \<and> user (deliver (length (tasks t)) (Fetch_response r) (spawn refreshAccessToken t))
        = user t
      \<and> isAuthenticated (deliver (length (tasks t)) (Fetch_response r) (spawn refreshAccessToken t))
        = isAuthenticated t
      \<and> tasks (deliver (length (tasks t)) (Fetch_response r) (spawn refreshAccessToken t))
        = tasks t @ [Settled (Inr (Str a))]" for t
  proof -
    from store_refresh_success [OF ok, of t] obtain ro where
      "deliver (length (tasks t)) (Fetch_response r) (spawn refreshAccessToken t) =
         (refresh_succeeded (payload r) t)
           \<lparr>net_log := net_log t @ [(''auth/refresh'', ro)],
            tasks := tasks t @ [Settled (Inr (Str (js_string_of (access_token (payload r)))))]\<rparr>"
      by blast
    then show ?thesis
      using assms(4-7) by (simp add: refresh_succeeded_tokens truthy_def js_string_of_def)
  qed
  define s0 where "s0 = loadUserFromStorage loc (fresh_page scheme rest (Some u) sid lang)"
  have s0: "accessToken s0 = None" "csrfToken s0 = None" "user s0 = u" "isAuthenticated s0"
    "tasks s0 = []"
    unfolding s0_def loadUserFromStorage_fresh_page by (simp_all add: fresh_page_def)
  have l0: "length (tasks s0) = 0"
    by (simp add: s0)
  show ?thesis
    unfolding Let_def s0_def [symmetric]
    using gen [of s0, unfolded l0] s0 gen [of s] by simp
qed

text \<open>The theorem at a persisted user with id 7 and a backend that answers with new tokens.\<close>

theorem reload_token_loss_witness:
  "accessToken reloaded_example = None \<and> csrfToken reloaded_example = None
   \<and> field (user reloaded_example) ''id'' = JNum ''7'' \<and> isAuthenticated reloaded_example
   \<and> accessToken (deliver 0 (token_response ''fresh'' ''csrf-1'')
        (spawn refreshAccessToken reloaded_example)) = Some ''fresh''
   \<and> csrfToken (deliver 0 (token_response ''fresh'' ''csrf-1'')
        (spawn refreshAccessToken reloaded_example)) = Some ''csrf-1''
   \<and> field (user (deliver 0 (token_response ''fresh'' ''csrf-1'')
        (spawn refreshAccessToken reloaded_example))) ''id'' = JNum ''7''"
  using reload_token_loss [where r = "\<lparr>status = 200,
        payload = \<lparr>detail = JUndefined, access_token = Some ''fresh'', csrf_token = Some ''csrf-1'',
                   json_session_id = Some ''sess-2'', content = []\<rparr>\<rparr>"
      and a = "''fresh''" and c = "''csrf-1''" and loc = False and scheme = "''https''"
      and rest = "''fit.example''" and u = "[(''id'', JNum ''7'')]" and sid = "Some ''sess-1''"
      and lang = None and s = example_session]
  by (simp add: Let_def token_response_def field_def reloaded_example_def)

section \<open>Failure of the refresh: effects on the session state\<close>

text \<open>
  Claim C3, as the code has it. The refresh that the 401 handler invokes is the store's
  \<open>refreshAccessToken\<close>. When it fails it hands the error to its caller: the very error
  of the transport, or \<open>No access token in refresh response\<close> when the transport
  succeeded without a token. It leaves the user, the session id, the websocket and the
  persisted storage unchanged, but it sets both tokens to \<open>null\<close> and
  \<open>isAuthenticated\<close> to false itself. The coordinator with the pending-promise marker is
  the function of serviceUtils.js that nothing calls: when its request fails, every
  awaiting caller receives that same error of the transport (for a 204, the
  \<open>TypeError\<close> of reading \<open>null\<close>), the marker is cleared and no field of the session
  state changes.
\<close>

theorem refresh_failure_effects:
  assumes "refresh_fails fo"
  shows "(let n = length (tasks s);
              s1 = deliver n fo (spawn refreshAccessToken s)
          in (\<forall>e. attemptFetch ''auth/refresh'' (refresh_options s) ''json'' fo = Inl e \<longrightarrow>
                tasks s1 ! n = Settled (Inl e))
           \<and> ((\<forall>e. attemptFetch ''auth/refresh'' (refresh_options s) ''json'' fo \<noteq> Inl e) \<longrightarrow>
                tasks s1 ! n = Settled (Inl (Error ''No access token in refresh response'')))
           \<and> accessToken s1 = None \<and> csrfToken s1 = None \<and> \<not> isAuthenticated s1
           \<and> user s1 = user s \<and> session_id s1 = session_id s
           \<and> user_websocket s1 = user_websocket s \<and> ls_user s1 = ls_user s
           \<and> ls_session_id s1 = ls_session_id s)
       \<and> (refreshTokenPromise s = Some (options, awaiting) \<longrightarrow>
            (\<forall>e. attemptFetch ''refresh'' options ''json'' fo = Inl e \<longrightarrow>
               serviceUtils_refresh_settled fo s =
                 (map (\<lambda>caller. (caller, Inl e)) awaiting, s\<lparr>refreshTokenPromise := None\<rparr>))
          \<and> (attemptFetch ''refresh'' options ''json'' fo = Inr Null \<longrightarrow>
               serviceUtils_refresh_settled fo s =
                 (map (\<lambda>caller. (caller,
                    Inl (Error ''Cannot read properties of null (reading 'access_token')'')))
                    awaiting,
                  s\<lparr>refreshTokenPromise := None\<rparr>)))"
proof -
  from store_refresh_failure_error [OF assms, of s] obtain ro where s1:
    "deliver (length (tasks s)) fo (spawn refreshAccessToken s) =
     s\<lparr>isAuthenticated := False, accessToken := None, csrfToken := None,
       net_log := net_log s @ [(''auth/refresh'', ro)],
       tasks := tasks s @ [Settled (Inl (refresh_error fo))]\<rparr>"
    by blast
  have eq: "attemptFetch ''auth/refresh'' post_null ''json'' fo
      = attemptFetch ''auth/refresh'' (refresh_options s) ''json'' fo"
    by (rule attemptFetch_independent)
  have e1: "refresh_error fo = e"
    if "attemptFetch ''auth/refresh'' (refresh_options s) ''json'' fo = Inl e" for e
    using that by (simp add: refresh_error_def eq)
  have e2: "refresh_error fo = Error ''No access token in refresh response''"
    if "\<forall>e. attemptFetch ''auth/refresh'' (refresh_options s) ''json'' fo \<noteq> Inl e"
    using that unfolding refresh_error_def eq
    by (cases "attemptFetch ''auth/refresh'' (refresh_options s) ''json'' fo") simp_all
  have a: "let n = length (tasks s);
              s1 = deliver n fo (spawn refreshAccessToken s)
          in (\<forall>e. attemptFetch ''auth/refresh'' (refresh_options s) ''json'' fo = Inl e \<longrightarrow>
                tasks s1 ! n = Settled (Inl e))
           \<and> ((\<forall>e. attemptFetch ''auth/refresh'' (refresh_options s) ''json'' fo \<noteq> Inl e) \<longrightarrow>
                tasks s1 ! n = Settled (Inl (Error ''No access token in refresh response'')))
           \<and> accessToken s1 = None \<and> csrfToken s1 = None \<and> \<not> isAuthenticated s1
           \<and> user s1 = user s \<and> session_id s1 = session_id s
           \<and> user_websocket s1 = user_websocket s \<and> ls_user s1 = ls_user s
           \<and> ls_session_id s1 = ls_session_id s"
    unfolding Let_def s1 using e1 e2 by simp
  have b: "serviceUtils_refresh_settled fo s =
                 (map (\<lambda>caller. (caller, Inl e)) awaiting, s\<lparr>refreshTokenPromise := None\<rparr>)"
    if "refreshTokenPromise s = Some (options, awaiting)"
      and "attemptFetch ''refresh'' options ''json'' fo = Inl e" for e
    using that by (simp add: serviceUtils_refresh_settled_def)
  have c: "serviceUtils_refresh_settled fo s =
                 (map (\<lambda>caller. (caller,
                    Inl (Error ''Cannot read properties of null (reading 'access_token')'')))
                    awaiting,
                  s\<lparr>refreshTokenPromise := None\<rparr>)"
    if "refreshTokenPromise s = Some (options, awaiting)"
      and "attemptFetch ''refresh'' options ''json'' fo = Inr Null"
    using that by (simp add: serviceUtils_refresh_settled_def)
  from a b c show ?thesis
    by blast
qed

lemma example_no_content_fails: "refresh_fails (error_response 204 None)"
  by (simp add: refresh_fails_def error_response_def)

text \<open>
  The theorem at the example session with two callers awaiting the coordinator's promise:
  a 401 reaches every caller as it is, and a 204 ends in the two errors named above.
\<close>

theorem refresh_failure_effects_witness:
  "tasks (deliver 0 (error_response 401 (Some ''Refresh token expired''))
       (spawn refreshAccessToken example_session)) ! 0
     = Settled (Inl (Error ''401 - Refresh token expired''))
   \<and> accessToken (deliver 0 (error_response 401 (Some ''Refresh token expired''))
       (spawn refreshAccessToken example_session)) = None
   \<and> user (deliver 0 (error_response 401 (Some ''Refresh token expired''))
       (spawn refreshAccessToken example_session)) = [(''id'', JNum ''7'')]
   \<and> serviceUtils_refresh_settled (error_response 401 (Some ''Refresh token expired''))
         (example_session\<lparr>refreshTokenPromise := Some (post_null, [1, 2])\<rparr>)
       = ([(1, Inl (Error ''401 - Refresh token expired'')),
           (2, Inl (Error ''401 - Refresh token expired''))], example_session)
   \<and> tasks (deliver 0 (error_response 204 None)
       (spawn refreshAccessToken example_session)) ! 0
     = Settled (Inl (Error ''No access token in refresh response''))
   \<and> serviceUtils_refresh_settled (error_response 204 None)
         (example_session\<lparr>refreshTokenPromise := Some (post_null, [1, 2])\<rparr>)
       = ([(1, Inl (Error ''Cannot read properties of null (reading 'access_token')'')),
           (2, Inl (Error ''Cannot read properties of null (reading 'access_token')''))],
          example_session)"
proof -
  have f401: "attemptFetch url options ''json'' (error_response 401 (Some ''Refresh token expired''))
      = Inl (Error ''401 - Refresh token expired'')" for url options
    by (simp add: attemptFetch_def error_response_def ok_def ok_status_def status_error_def
        show_nat_401)
  have f204: "attemptFetch url options ''json'' (error_response 204 None) = Inr Null"
    for url options
    by (simp add: attemptFetch_def error_response_def ok_def ok_status_def)
  have m: "example_session\<lparr>refreshTokenPromise := None\<rparr> = example_session"
    "refreshTokenPromise (example_session\<lparr>refreshTokenPromise := Some (post_null, [1, 2])\<rparr>)
       = Some (post_null, [1, 2])"
    "tasks example_session = []" "user example_session = [(''id'', JNum ''7'')]"
    by (simp_all add: example_session_def fresh_page_def)
  show ?thesis
    using
      refresh_failure_effects [OF example_refresh_fails, of example_session post_null "[1, 2]"]
      refresh_failure_effects [OF example_refresh_fails,
        of "example_session\<lparr>refreshTokenPromise := Some (post_null, [1, 2])\<rparr>" post_null "[1, 2]"]
      refresh_failure_effects [OF example_no_content_fails, of example_session post_null "[1, 2]"]
      refresh_failure_effects [OF example_no_content_fails,
        of "example_session\<lparr>refreshTokenPromise := Some (post_null, [1, 2])\<rparr>" post_null "[1, 2]"]
    by (simp add: Let_def f401 f204 m)
qed

text \<open>
  The claim as stated has the refresh leave every field of the session state alone. The
  store's \<open>refreshAccessToken\<close> of the example session, answered with a 401, throws the
  error and has cleared both tokens and \<open>isAuthenticated\<close>.
\<close>

theorem store_refresh_failure_clears_tokens:
  "tasks failed_refresh_example ! 0 = Settled (Inl (Error ''401 - Refresh token expired''))
   \<and> accessToken example_session = Some ''stale''
   \<and> accessToken failed_refresh_example = None
   \<and> csrfToken example_session = Some ''csrf-0''
   \<and> csrfToken failed_refresh_example = None
   \<and> isAuthenticated example_session \<and> \<not> isAuthenticated failed_refresh_example"
  by (simp add: failed_refresh_example_def run_defs resume.simps example_session_def
      fresh_page_def show_nat_401)

section \<open>The invariant of the session state\<close>

text \<open>
  Claim C4, as the code has it. From a state that satisfies the invariant, \<open>clearUser\<close>,
  \<open>loadUserFromStorage\<close> and \<open>setUser\<close> keep it; setting both tokens to values that are
  not \<open>null\<close> keeps it; a successful refresh keeps it when the response carries a CSRF
  token or one is already in memory. A failed refresh clears both tokens together, so the
  tokens stay paired, and sets \<open>isAuthenticated\<close> to false without touching the user.
\<close>

theorem session_invariant_preserved:
  assumes "session_invariant s"
  shows "session_invariant (clearUser loc s)
    \<and> session_invariant (loadUserFromStorage loc s)
    \<and> session_invariant (setUser userData sid loc s)
    \<and> (a \<noteq> None \<and> c \<noteq> None \<longrightarrow> session_invariant (setCsrfToken c (setAccessToken a s)))
    \<and> (\<not> refresh_fails fo
         \<and> ((\<forall>r. fo = Fetch_response r \<longrightarrow> truthy (csrf_token (payload r)))
             \<or> csrfToken s \<noteq> None) \<longrightarrow>
         session_invariant (deliver (length (tasks s)) fo (spawn refreshAccessToken s)))
    \<and> (refresh_fails fo \<longrightarrow>
         (let s1 = deliver (length (tasks s)) fo (spawn refreshAccessToken s)
          in tokens_paired s1 \<and> \<not> isAuthenticated s1 \<and> user s1 = user s))"
proof -
  have 1: "session_invariant (clearUser loc s)"
    using session_cleared_clearUser [of loc s]
    by (simp add: session_cleared_def session_invariant_def tokens_paired_def
        user_implies_authenticated_def)
  have 2: "session_invariant (loadUserFromStorage loc s)"
    using assms
    by (simp add: loadUserFromStorage_def setLocale_def session_invariant_def tokens_paired_def
        user_implies_authenticated_def Let_def split: option.split)
  have 3: "session_invariant (setUser userData sid loc s)"
    using assms
    by (simp add: setUser_def setUserSessionId_def setUserWebsocket_def setLocale_def
        session_invariant_def tokens_paired_def user_implies_authenticated_def Let_def)
  have 4: "session_invariant (setCsrfToken c (setAccessToken a s))" if "a \<noteq> None" "c \<noteq> None"
    using assms that
    by (simp add: setCsrfToken_def setAccessToken_def session_invariant_def tokens_paired_def
        user_implies_authenticated_def)
  have 5: "session_invariant (deliver (length (tasks s)) fo (spawn refreshAccessToken s))"
    if ok: "\<not> refresh_fails fo"
      and csrf: "(\<forall>r. fo = Fetch_response r \<longrightarrow> truthy (csrf_token (payload r)))
           \<or> csrfToken s \<noteq> None"
  proof -
    from store_refresh_success [OF ok, of s] obtain r ro where r:
      "fo = Fetch_response r" "truthy (access_token (payload r))"
      "deliver (length (tasks s)) fo (spawn refreshAccessToken s) =
         (refresh_succeeded (payload r) s)
           \<lparr>net_log := net_log s @ [(''auth/refresh'', ro)],
            tasks := tasks s @ [Settled (Inr (Str (js_string_of (access_token (payload r)))))]\<rparr>"
      by blast
    from csrf r(1) have "truthy (csrf_token (payload r)) \<or> csrfToken s \<noteq> None"
      by blast
    with r(2) assms show ?thesis
      unfolding r(3)
      by (auto simp: session_invariant_def tokens_paired_def user_implies_authenticated_def
          refresh_succeeded_tokens truthy_def split: option.splits)
  qed
  have 6: "let s1 = deliver (length (tasks s)) fo (spawn refreshAccessToken s)
          in tokens_paired s1 \<and> \<not> isAuthenticated s1 \<and> user s1 = user s"
    if "refresh_fails fo"
    using store_refresh_failure [OF that, of s]
    by (auto simp: Let_def tokens_paired_def)
  from 1 2 3 4 5 6 show ?thesis
    by blast
qed

lemma example_session_invariant: "session_invariant example_session"
  by (simp add: session_invariant_def tokens_paired_def user_implies_authenticated_def
      example_session_def fresh_page_def)

lemma example_refresh_succeeds: "\<not> refresh_fails (token_response ''fresh'' ''csrf-1'')"
  by (simp add: refresh_fails_def token_response_def ok_def ok_status_def truthy_def)

text \<open>The theorem at the example session.\<close>

theorem session_invariant_preserved_witness:
  "session_invariant example_session
   \<and> session_invariant (clearUser False example_session)
   \<and> session_invariant (loadUserFromStorage False example_session)
   \<and> session_invariant (setUser [(''id'', JNum ''8'')] (Some ''sess-3'') False example_session)
   \<and> session_invariant (setCsrfToken (Some ''c'') (setAccessToken (Some ''a'') example_session))
   \<and> session_invariant
       (deliver 0 (token_response ''fresh'' ''csrf-1'') (spawn refreshAccessToken example_session))
   \<and> tokens_paired
       (deliver 0 (error_response 401 (Some ''Refresh token expired''))
         (spawn refreshAccessToken example_session))"
  using example_session_invariant example_refresh_succeeds example_refresh_fails
    session_invariant_preserved [OF example_session_invariant, where loc = False
      and userData = "[(''id'', JNum ''8'')]" and sid = "Some ''sess-3''" and a = "Some ''a''"
      and c = "Some ''c''" and fo = "token_response ''fresh'' ''csrf-1''"]
    session_invariant_preserved [OF example_session_invariant, where loc = False
      and userData = "[(''id'', JNum ''8'')]" and sid = "Some ''sess-3''" and a = "Some ''a''"
      and c = "Some ''c''" and fo = "error_response 401 (Some ''Refresh token expired'')"]
  by (simp add: Let_def example_session_def fresh_page_def token_response_def truthy_def)

text \<open>
  The claim as stated has every store operation keep the invariant. The example session
  satisfies it; after a failed refresh the user is still populated and
  \<open>isAuthenticated\<close> is false.
\<close>

theorem refresh_failure_breaks_invariant:
  "session_invariant example_session \<and> \<not> session_invariant failed_refresh_example
   \<and> user failed_refresh_example = [(''id'', JNum ''7'')]
   \<and> user failed_refresh_example \<noteq> blank_user
   \<and> \<not> isAuthenticated failed_refresh_example"
  by (simp add: failed_refresh_example_def run_defs resume.simps session_invariant_def
      tokens_paired_def user_implies_authenticated_def blank_user_def example_session_def
      fresh_page_def show_nat_401)


section \<open>Concurrent 401s and the MFA exemption\<close>

text \<open>
  The coordinator of serviceUtils.js is single-flight: a second caller, while the promise
  is pending, sends nothing and awaits the same promise.
\<close>

lemma coordinator_single_flight:
  assumes "refreshTokenPromise s = None"
  shows "\<exists>options.
     serviceUtils_refreshAccessToken c2 (serviceUtils_refreshAccessToken c1 s) =
       s\<lparr>net_log := net_log s @ [(''refresh'', options)],
         refreshTokenPromise := Some (options, [c1, c2])\<rparr>"
  using assms by (auto simp: serviceUtils_refreshAccessToken_def Let_def)

text \<open>
  Claim C1 (single-flight refresh), evaluated on the code. Two requests of the example
  session are in flight and each is answered with a 401. Each handler calls the store's
  \<open>refreshAccessToken\<close>, which sends its own \<open>auth/refresh\<close>: two refresh calls are in
  flight at the same time, and two have been made. The two requesters need not see the same
  outcome either: when the first refresh succeeds and the second fails, the first request
  is retried while the second handler clears the tokens again and redirects to the login
  page.
\<close>

theorem concurrent_401_two_refresh_calls:
  "in_flight ''auth/refresh'' concurrent_401_example = 2
   \<and> calls_to ''auth/refresh'' concurrent_401_example = 2
   \<and> map fst (net_log concurrent_401_example) =
       [''profile'', ''profile/goals'', ''auth/refresh'', ''auth/refresh'']
   \<and> in_flight ''profile'' diverging_refresh_example = 1
   \<and> tasks diverging_refresh_example ! 1 = Settled (Inr Undefined)
   \<and> accessToken diverging_refresh_example = None
   \<and> location_replaced diverging_refresh_example
       = Some ''https://fit.example/login?sessionExpired=true''"
  by (simp add: diverging_refresh_example_def concurrent_401_example_def run_defs resume.simps
      example_session_def fresh_page_def show_nat_401)

text \<open>
  Claim C2 (terminal 401 of MFA verify), evaluated on the code. \<open>session.verifyMFAAndLogin\<close>
  posts to \<open>auth/mfa/verify\<close>; the exemption of \<open>fetchWithRetry\<close> compares the URL with
  \<open>mfa/verify\<close>. A 401 with the message \<open>Invalid MFA code\<close> therefore does not reach the
  caller: the handler sends \<open>auth/refresh\<close>, and when that fails too the caller receives
  \<open>undefined\<close> and the page is redirected.
\<close>

theorem mfa_verify_401_triggers_refresh:
  "attemptFetch ''auth/mfa/verify'' example_options ''json''
     (error_response 401 (Some ''Invalid MFA code'')) = Inl (Error ''401 - Invalid MFA code'')
   \<and> tasks mfa_rejected_example ! 0 \<noteq> Settled (Inl (Error ''401 - Invalid MFA code''))
   \<and> in_flight ''auth/refresh'' mfa_rejected_example = 1
   \<and> map fst (net_log mfa_rejected_example) = [''auth/mfa/verify'', ''auth/refresh'']
   \<and> tasks mfa_refresh_failed_example ! 0 = Settled (Inr Undefined)
   \<and> location_replaced mfa_refresh_failed_example
       = Some ''https://fit.example/login?sessionExpired=true''"
  by (simp add: mfa_refresh_failed_example_def mfa_rejected_example_def run_defs resume.simps
      anonymous_page_def fresh_page_def show_nat_401)


end
